theory Spec2Isabelle
  imports Complex_Main "HOL-Library.Sublist" "HOL-Library.Multiset"
    "HOL-Library.Product_Lexorder"
begin

section \<open>Python values and exceptions\<close>

text \<open>
  The data clients of Birdwatch (\<^verbatim>\<open>app/tools/weather.py\<close>, \<^verbatim>\<open>app/tools/ebird.py\<close>) work on
  what \<^verbatim>\<open>response.json()\<close> returns: Python values built from JSON. They are modelled by
  the datatype \<open>json\<close>. \<open>JNum r\<close> is a finite number, an integer or a finite float, by
  its value. Python's reader also accepts the words \<^verbatim>\<open>NaN\<close>, \<^verbatim>\<open>Infinity\<close> and
  \<^verbatim>\<open>-Infinity\<close>: they are \<open>JNaN\<close> and \<open>JInf\<close> (\<open>True\<close> for the positive one). An object
  is the list of the items of the Python dict (its keys are distinct), looked up with
  \<open>map_of\<close>.
\<close>

datatype json =
    JNull
  | JBool bool
  | JNum real
  | JNaN
  | JInf bool
  | JStr string
  | JArr "json list"
  | JObj "(string \<times> json) list"

text \<open>
  The exceptions the modelled code can meet; all are subclasses of Python's \<^verbatim>\<open>Exception\<close>.
  \<open>TransportError\<close> and \<open>HTTPStatusError\<close> are httpx's (\<^verbatim>\<open>client.get\<close>,
  \<^verbatim>\<open>raise_for_status\<close>), \<open>JSONDecodeError\<close> and \<open>RecursionError\<close> are what \<^verbatim>\<open>json.loads\<close>
  raises on a text that is not JSON and on one nested too deep, \<open>OverflowError\<close> and
  \<open>ZeroDivisionError\<close> come from arithmetic, the others from operations on values of the
  wrong shape. \<open>OtherError\<close> stands for any further subclass of \<^verbatim>\<open>Exception\<close>, with its
  message.
\<close>

datatype exn =
    TransportError
  | HTTPStatusError
  | JSONDecodeError
  | TypeError
  | AttributeError
  | KeyError
  | IndexError
  | OverflowError
  | ZeroDivisionError
  | RecursionError
  | OtherError string

text \<open>A computation that may raise: \<open>Inl\<close> is the exception, \<open>Inr\<close> the value.\<close>

definition bnd :: "exn + 'a \<Rightarrow> ('a \<Rightarrow> exn + 'b) \<Rightarrow> exn + 'b" where
  "bnd m f = (case m of Inl e \<Rightarrow> Inl e | Inr x \<Rightarrow> f x)"

text \<open>\<^verbatim>\<open>d.get(k, default)\<close>: only a dict has \<^verbatim>\<open>get\<close>.\<close>

fun py_get :: "json \<Rightarrow> string \<Rightarrow> json \<Rightarrow> exn + json" where
  "py_get (JObj kvs) k d = Inr (case map_of kvs k of None \<Rightarrow> d | Some v \<Rightarrow> v)"
| "py_get _ k d = Inl AttributeError"

text \<open>Truth value of a Python value (\<^verbatim>\<open>if x\<close>).\<close>

fun py_truthy :: "json \<Rightarrow> bool" where
  "py_truthy JNull = False"
| "py_truthy (JBool b) = b"
| "py_truthy (JNum r) = (r \<noteq> 0)"
| "py_truthy JNaN = True"
| "py_truthy (JInf s) = True"
| "py_truthy (JStr s) = (s \<noteq> [])"
| "py_truthy (JArr xs) = (xs \<noteq> [])"
| "py_truthy (JObj kvs) = (kvs \<noteq> [])"

text \<open>
  Slices with constant or integer bounds. \<^verbatim>\<open>x[a:b]\<close> with \<open>0 \<le> a \<le> b\<close> and \<^verbatim>\<open>x[:m]\<close>
  (a negative \<open>m\<close> counts from the end) are defined on lists and strings; on any other
  value the subscript raises.
\<close>

definition slice_list :: "nat \<Rightarrow> nat \<Rightarrow> 'a list \<Rightarrow> 'a list" where
  "slice_list a b xs = take (b - a) (drop a xs)"

definition slice_to :: "int \<Rightarrow> 'a list \<Rightarrow> 'a list" where
  "slice_to m xs = (if 0 \<le> m then take (nat m) xs else take (length xs - nat (- m)) xs)"

fun py_slice :: "nat \<Rightarrow> nat \<Rightarrow> json \<Rightarrow> exn + json" where
  "py_slice a b (JArr xs) = Inr (JArr (slice_list a b xs))"
| "py_slice a b (JStr s) = Inr (JStr (slice_list a b s))"
| "py_slice a b _ = Inl TypeError"

fun py_slice_to :: "int \<Rightarrow> json \<Rightarrow> exn + json" where
  "py_slice_to m (JArr xs) = Inr (JArr (slice_to m xs))"
| "py_slice_to m (JStr s) = Inr (JStr (slice_to m s))"
| "py_slice_to m _ = Inl TypeError"

text \<open>
  \<^verbatim>\<open>x[i]\<close> for \<open>i \<ge> 0\<close>: a dict from JSON has only string keys, so an integer key is
  never there.
\<close>

fun py_index :: "nat \<Rightarrow> json \<Rightarrow> exn + json" where
  "py_index i (JArr xs) = (if i < length xs then Inr (xs ! i) else Inl IndexError)"
| "py_index i (JStr s) = (if i < length s then Inr (JStr [s ! i]) else Inl IndexError)"
| "py_index i (JObj kvs) = Inl KeyError"
| "py_index i _ = Inl TypeError"

text \<open>
  Iteration (\<^verbatim>\<open>for x in v\<close>): a list gives its elements, a string its characters, a dict
  its keys; nothing else is iterable.
\<close>

fun py_iter :: "json \<Rightarrow> exn + json list" where
  "py_iter (JArr xs) = Inr xs"
| "py_iter (JStr s) = Inr (map (\<lambda>c. JStr [c]) s)"
| "py_iter (JObj kvs) = Inr (map (\<lambda>kv. JStr (fst kv)) kvs)"
| "py_iter _ = Inl TypeError"

text \<open>\<^verbatim>\<open>len(v)\<close>.\<close>

fun py_len :: "json \<Rightarrow> exn + nat" where
  "py_len (JArr xs) = Inr (length xs)"
| "py_len (JStr s) = Inr (length s)"
| "py_len (JObj kvs) = Inr (length kvs)"
| "py_len _ = Inl TypeError"

text \<open>
  The value of a Python number: a finite one (an \<^verbatim>\<open>int\<close>, or a \<^verbatim>\<open>float\<close> that is finite), an
  infinite float (\<open>Inf True\<close> is the positive one) or the float NaN.
\<close>

datatype num = Fin real | Inf bool | Nan

text \<open>
  A value used in arithmetic: numbers, and the booleans (Python's \<^verbatim>\<open>bool\<close> is a subclass
  of \<^verbatim>\<open>int\<close>); anything else raises \<^verbatim>\<open>TypeError\<close>.
\<close>

fun py_num :: "json \<Rightarrow> exn + num" where
  "py_num (JNum r) = Inr (Fin r)"
| "py_num (JBool b) = Inr (Fin (if b then 1 else 0))"
| "py_num JNaN = Inr Nan"
| "py_num (JInf s) = Inr (Inf s)"
| "py_num _ = Inl TypeError"

fun json_of_num :: "num \<Rightarrow> json" where
  "json_of_num (Fin r) = JNum r"
| "json_of_num (Inf s) = JInf s"
| "json_of_num Nan = JNaN"

text \<open>
  \<^verbatim>\<open>a < b\<close> on numbers. Python compares integers and floats by their values; every
  comparison with NaN is false.
\<close>

fun num_less :: "num \<Rightarrow> num \<Rightarrow> bool" where
  "num_less (Fin a) (Fin b) = (a < b)"
| "num_less (Fin a) (Inf t) = t"
| "num_less (Inf s) (Fin b) = (\<not> s)"
| "num_less (Inf s) (Inf t) = (\<not> s \<and> t)"
| "num_less Nan b = False"
| "num_less a Nan = False"

text \<open>A \<^verbatim>\<open>for\<close> loop that appends \<open>f x\<close> for each element and stops at the first raise.\<close>

fun map_exn :: "('a \<Rightarrow> exn + 'b) \<Rightarrow> 'a list \<Rightarrow> exn + 'b list" where
  "map_exn f [] = Inr []"
| "map_exn f (x # xs) = bnd (f x) (\<lambda>y. bnd (map_exn f xs) (\<lambda>ys. Inr (y # ys)))"

text \<open>
  A dict literal \<^verbatim>\<open>{k1: obs.get(s1, d1), k2: obs.get(s2, d2), ...}\<close>, its entries evaluated
  in order; \<^verbatim>\<open>obs.get(s)\<close> has the default \<^verbatim>\<open>None\<close>.
\<close>

fun dict_of_gets :: "json \<Rightarrow> (string \<times> string \<times> json) list \<Rightarrow> exn + (string \<times> json) list" where
  "dict_of_gets obs [] = Inr []"
| "dict_of_gets obs ((k, src, d) # fs) =
     bnd (py_get obs src d) (\<lambda>v. bnd (dict_of_gets obs fs) (\<lambda>r. Inr ((k, v) # r)))"

section \<open>Arithmetic and sorting of the Python runtime\<close>

text \<open>
  The clients compute with Python floats. What an operation on floats returns (its
  rounding, its overflow to an \<^verbatim>\<open>OverflowError\<close> or to infinity, the algorithm of \<^verbatim>\<open>sum\<close>,
  the result of \<^verbatim>\<open>**\<close>) is the work of the interpreter and of the C library, not of the
  repository. The operations the clients use are therefore parameters of the model,
  the fields of a \<open>runtime\<close>: what is proved with a free \<open>rt\<close> holds whatever they return.
  The last field is \<^verbatim>\<open>list.sort\<close> on a keyed list that holds a NaN key and is not one
  ascending run, where the result depends on the merge strategy of the interpreter.
\<close>

record runtime =
  rt_sum :: "num list \<Rightarrow> exn + num"
  rt_div :: "num \<Rightarrow> num \<Rightarrow> exn + num"
  rt_sub :: "num \<Rightarrow> num \<Rightarrow> exn + num"
  rt_add :: "num \<Rightarrow> num \<Rightarrow> exn + num"
  rt_mul :: "num \<Rightarrow> num \<Rightarrow> exn + num"
  rt_pow2 :: "num \<Rightarrow> exn + num"
  rt_pow_half :: "num \<Rightarrow> exn + num"
  rt_round1 :: "num \<Rightarrow> num"
  rt_sort_nan :: "(num \<times> json) list \<Rightarrow> (num \<times> json) list"

text \<open>\<^verbatim>\<open>sum(v)\<close>: the elements of \<open>v\<close> must be numbers.\<close>

definition py_sum :: "runtime \<Rightarrow> json \<Rightarrow> exn + num" where
  "py_sum rt v = bnd (py_iter v) (\<lambda>items. bnd (map_exn py_num items) (rt_sum rt))"

text \<open>
  To run the clients on concrete responses, \<open>exact\<close> is the runtime whose operations give
  the exact result on finite numbers and follow the rules of floats on the others.
  Python agrees with it wherever the exact results are floats, as they are for the
  small integers of the runs below.
\<close>

fun exact_add :: "num \<Rightarrow> num \<Rightarrow> num" where
  "exact_add (Fin a) (Fin b) = Fin (a + b)"
| "exact_add (Fin a) (Inf t) = Inf t"
| "exact_add (Inf s) (Fin b) = Inf s"
| "exact_add (Inf s) (Inf t) = (if s = t then Inf s else Nan)"
| "exact_add Nan b = Nan"
| "exact_add a Nan = Nan"

fun exact_neg :: "num \<Rightarrow> num" where
  "exact_neg (Fin a) = Fin (- a)"
| "exact_neg (Inf s) = Inf (\<not> s)"
| "exact_neg Nan = Nan"

fun exact_mul :: "num \<Rightarrow> num \<Rightarrow> num" where
  "exact_mul (Fin a) (Fin b) = Fin (a * b)"
| "exact_mul (Fin a) (Inf t) = (if a = 0 then Nan else Inf (t = (0 < a)))"
| "exact_mul (Inf s) (Fin b) = (if b = 0 then Nan else Inf (s = (0 < b)))"
| "exact_mul (Inf s) (Inf t) = Inf (s = t)"
| "exact_mul Nan b = Nan"
| "exact_mul a Nan = Nan"

fun exact_div :: "num \<Rightarrow> num \<Rightarrow> exn + num" where
  "exact_div (Fin a) (Fin b) = (if b = 0 then Inl ZeroDivisionError else Inr (Fin (a / b)))"
| "exact_div (Fin a) (Inf t) = Inr (Fin 0)"
| "exact_div (Inf s) (Fin b) =
     (if b = 0 then Inl ZeroDivisionError else Inr (Inf (s = (0 < b))))"
| "exact_div (Inf s) (Inf t) = Inr Nan"
| "exact_div Nan b = Inr Nan"
| "exact_div a Nan = Inr Nan"

text \<open>
  \<^verbatim>\<open>x ** 0.5\<close>. On a negative float Python gives a complex number, which the
  \<^verbatim>\<open>round\<close> that follows in the source refuses with a \<^verbatim>\<open>TypeError\<close>.
\<close>

fun exact_pow_half :: "num \<Rightarrow> exn + num" where
  "exact_pow_half (Fin a) = (if 0 \<le> a then Inr (Fin (sqrt a)) else Inl TypeError)"
| "exact_pow_half (Inf s) = Inr (Inf True)"
| "exact_pow_half Nan = Inr Nan"

text \<open>The square root is not computed by rewriting with code equations.\<close>

declare exact_pow_half.simps [code del]

text \<open>
  \<^verbatim>\<open>round(x, 1)\<close> on the exact value: to the nearest tenth, a tie to the even one; an
  infinite float and NaN are returned as they are.
\<close>

definition round_tenth :: "real \<Rightarrow> real" where
  "round_tenth x =
     (let y = x * 10; f = \<lfloor>y\<rfloor>; d = y - of_int f
      in of_int (if d < 1 / 2 then f else if 1 / 2 < d then f + 1
                 else if even f then f else f + 1) / 10)"

fun exact_round1 :: "num \<Rightarrow> num" where
  "exact_round1 (Fin x) = Fin (round_tenth x)"
| "exact_round1 (Inf s) = Inf s"
| "exact_round1 Nan = Nan"

definition exact :: runtime where
  "exact =
     \<lparr> rt_sum = (\<lambda>xs. Inr (foldl exact_add (Fin 0) xs)),
       rt_div = exact_div,
       rt_sub = (\<lambda>a b. Inr (exact_add a (exact_neg b))),
       rt_add = (\<lambda>a b. Inr (exact_add a b)),
       rt_mul = (\<lambda>a b. Inr (exact_mul a b)),
       rt_pow2 = (\<lambda>a. Inr (exact_mul a a)),
       rt_pow_half = exact_pow_half,
       rt_round1 = exact_round1,
       rt_sort_nan = (\<lambda>keyed. keyed) \<rparr>"

section \<open>The outbound HTTP call and the result of a tool\<close>

text \<open>
  A request as the tools build it. The parameter \<open>http\<close> of every operation stands for
  \<^verbatim>\<open>client.get(...)\<close>, \<^verbatim>\<open>response.raise_for_status()\<close> and \<^verbatim>\<open>response.json()\<close> together: it
  gives the decoded body, or the exception one of the three raised.
\<close>

record request =
  url :: string
  headers :: "(string \<times> string) list"
  params :: "(string \<times> json) list"

type_synonym http = "request \<Rightarrow> exn + json"

text \<open>
  What a tool hands back is a Python \<^verbatim>\<open>str\<close>: \<open>Payload v\<close> is \<^verbatim>\<open>str(v)\<close> of the value
  built, \<open>ErrorText p e\<close> is the text \<open>p\<close> followed by \<^verbatim>\<open>str(e)\<close>.
\<close>

datatype tool_text = Payload json | ErrorText string exn

text \<open>
  \<^verbatim>\<open>try: ... return str(v)  except Exception as e: return f"<msg>{str(e)}"\<close>. The
  result is again a computation: \<open>Inl\<close> would be an exception leaving the operation.
\<close>

definition try_except :: "string \<Rightarrow> exn + json \<Rightarrow> exn + tool_text" where
  "try_except msg body =
     (case body of Inr v \<Rightarrow> Inr (Payload v) | Inl e \<Rightarrow> Inr (ErrorText msg e))"

text \<open>
  The error policy of the specification, in its words, for an operation with the
  \<^verbatim>\<open>try\<close> block \<open>body\<close> and the result \<open>result\<close>: the caller receives a text and never
  an exception; when the block raises \<open>e\<close> the text is the message \<open>msg\<close>, which starts
  with \<^verbatim>\<open>Error\<close>, followed by \<^verbatim>\<open>str(e)\<close>; otherwise it is the text of the value built.
\<close>

definition absorbed :: "string \<Rightarrow> exn + json \<Rightarrow> exn + tool_text \<Rightarrow> bool" where
  "absorbed msg body result =
     (prefix ''Error '' msg \<and>
      (case body of
         Inr v \<Rightarrow> result = Inr (Payload v)
       | Inl e \<Rightarrow> result = Inr (ErrorText msg e)))"

section \<open>Weather/Conditions client (\<^verbatim>\<open>app/tools/weather.py\<close>)\<close>

subsection \<open>\<^verbatim>\<open>get_weather_forecast\<close>\<close>

definition forecast_request :: "real \<Rightarrow> real \<Rightarrow> request" where
  "forecast_request lat lng =
     \<lparr> url = ''https://api.open-meteo.com/v1/forecast'',
       headers = [],
       params = [(''latitude'', JNum lat), (''longitude'', JNum lng),
                 (''hourly'', JStr ''temperature_2m,precipitation_probability,wind_speed_10m,cloud_cover,visibility''),
                 (''daily'', JStr ''sunrise,sunset,precipitation_sum,wind_speed_10m_max''),
                 (''timezone'', JStr ''auto''),
                 (''forecast_days'', JNum 7)] \<rparr>"

text \<open>\<^verbatim>\<open>hourly.get(key, [dflt])[0]\<close>.\<close>

definition first_hour :: "json \<Rightarrow> string \<Rightarrow> json \<Rightarrow> exn + json" where
  "first_hour hourly key dflt = bnd (py_get hourly key (JArr [dflt])) (py_index 0)"

text \<open>\<^verbatim>\<open>daily.get(key, [])[i] if i < len(daily.get(key, [])) else dflt\<close>.\<close>

definition daily_at :: "json \<Rightarrow> string \<Rightarrow> nat \<Rightarrow> json \<Rightarrow> exn + json" where
  "daily_at daily key i dflt =
     bnd (py_get daily key (JArr [])) (\<lambda>v.
     bnd (py_len v) (\<lambda>n.
       if i < n then bnd (py_get daily key (JArr [])) (py_index i) else Inr dflt))"

definition forecast_day :: "json \<Rightarrow> nat \<Rightarrow> exn + json" where
  "forecast_day daily i =
     bnd (daily_at daily ''time'' i JNull) (\<lambda>date.
     bnd (daily_at daily ''sunrise'' i JNull) (\<lambda>sunrise.
     bnd (daily_at daily ''sunset'' i JNull) (\<lambda>sunset.
     bnd (daily_at daily ''precipitation_sum'' i (JNum 0)) (\<lambda>precipitation_mm.
     bnd (daily_at daily ''wind_speed_10m_max'' i (JNum 0)) (\<lambda>max_wind_kmh.
       Inr (JObj [(''date'', date), (''sunrise'', sunrise), (''sunset'', sunset),
                  (''precipitation_mm'', precipitation_mm),
                  (''max_wind_kmh'', max_wind_kmh)]))))))"

definition weather_forecast_body :: "http \<Rightarrow> real \<Rightarrow> real \<Rightarrow> exn + json" where
  "weather_forecast_body http lat lng =
     bnd (http (forecast_request lat lng)) (\<lambda>data.
     bnd (py_get data ''hourly'' (JObj [])) (\<lambda>hourly.
     bnd (py_get data ''daily'' (JObj [])) (\<lambda>daily.
     bnd (first_hour hourly ''temperature_2m'' JNull) (\<lambda>temperature_c.
     bnd (first_hour hourly ''precipitation_probability'' (JNum 0)) (\<lambda>precipitation_probability.
     bnd (first_hour hourly ''wind_speed_10m'' (JNum 0)) (\<lambda>wind_speed_kmh.
     bnd (first_hour hourly ''cloud_cover'' (JNum 0)) (\<lambda>cloud_cover_percent.
     bnd (first_hour hourly ''visibility'' (JNum 0)) (\<lambda>visibility_m.
     bnd (py_get daily ''time'' (JArr [])) (\<lambda>times.
     bnd (py_len times) (\<lambda>n.
     bnd (map_exn (forecast_day daily) [0 ..< min 7 n]) (\<lambda>forecast_days.
     bnd (py_get data ''timezone'' (JStr ''Unknown'')) (\<lambda>timezone.
       Inr (JObj [
         (''current'', JObj [
            (''temperature_c'', temperature_c),
            (''precipitation_probability'', precipitation_probability),
            (''wind_speed_kmh'', wind_speed_kmh),
            (''cloud_cover_percent'', cloud_cover_percent),
            (''visibility_m'', visibility_m)]),
         (''forecast'', JArr forecast_days),
         (''timezone'', timezone)])))))))))))))"

definition get_weather_forecast :: "http \<Rightarrow> real \<Rightarrow> real \<Rightarrow> exn + tool_text" where
  "get_weather_forecast http lat lng =
     try_except ''Error fetching weather: '' (weather_forecast_body http lat lng)"

subsection \<open>\<^verbatim>\<open>get_birding_conditions\<close>\<close>

definition conditions_request :: "real \<Rightarrow> real \<Rightarrow> request" where
  "conditions_request lat lng =
     \<lparr> url = ''https://api.open-meteo.com/v1/forecast'',
       headers = [],
       params = [(''latitude'', JNum lat), (''longitude'', JNum lng),
                 (''hourly'', JStr ''temperature_2m,precipitation_probability,wind_speed_10m,cloud_cover,visibility''),
                 (''daily'', JStr ''sunrise,sunset''),
                 (''timezone'', JStr ''auto''),
                 (''forecast_days'', JNum 1)] \<rparr>"

text \<open>\<^verbatim>\<open>hourly.get(key, [])[6:10]\<close>.\<close>

definition morning_window :: "json \<Rightarrow> string \<Rightarrow> exn + json" where
  "morning_window hourly key = bnd (py_get hourly key (JArr [])) (py_slice 6 10)"

text \<open>\<^verbatim>\<open>sum(w) / len(w) if w else default\<close>.\<close>

definition window_average :: "runtime \<Rightarrow> json \<Rightarrow> real \<Rightarrow> exn + num" where
  "window_average rt w dflt =
     (if py_truthy w
      then bnd (py_sum rt w) (\<lambda>s. bnd (py_len w) (\<lambda>n. rt_div rt s (Fin (real n))))
      else Inr (Fin dflt))"

text \<open>
  The four penalties, one \<^verbatim>\<open>if/elif\<close> chain per metric; \<^verbatim>\<open>avg > 30\<close> is
  \<open>num_less (Fin 30) avg\<close>.
\<close>

definition wind_penalty :: "num \<Rightarrow> int" where
  "wind_penalty avg_wind =
     (if num_less (Fin 30) avg_wind then 30
      else if num_less (Fin 20) avg_wind then 15
      else if num_less (Fin 10) avg_wind then 5 else 0)"

definition precip_penalty :: "num \<Rightarrow> int" where
  "precip_penalty avg_precip =
     (if num_less (Fin 70) avg_precip then 40
      else if num_less (Fin 40) avg_precip then 20
      else if num_less (Fin 20) avg_precip then 10 else 0)"

definition cloud_penalty :: "num \<Rightarrow> int" where
  "cloud_penalty avg_clouds =
     (if num_less (Fin 90) avg_clouds then 10
      else if num_less avg_clouds (Fin 20) then 5 else 0)"

definition temp_penalty :: "num \<Rightarrow> int" where
  "temp_penalty avg_temp =
     (if num_less avg_temp (Fin 0) \<or> num_less (Fin 35) avg_temp then 15
      else if num_less avg_temp (Fin 5) \<or> num_less (Fin 30) avg_temp then 5 else 0)"

text \<open>The local variable \<^verbatim>\<open>score\<close> after the four chains.\<close>

definition raw_score :: "num \<Rightarrow> num \<Rightarrow> num \<Rightarrow> num \<Rightarrow> int" where
  "raw_score avg_temp avg_wind avg_precip avg_clouds =
     100 - wind_penalty avg_wind - precip_penalty avg_precip
         - cloud_penalty avg_clouds - temp_penalty avg_temp"

text \<open>The value under the key \<^verbatim>\<open>"score"\<close>: \<^verbatim>\<open>max(0, min(100, score))\<close>.\<close>

definition final_score :: "num \<Rightarrow> num \<Rightarrow> num \<Rightarrow> num \<Rightarrow> int" where
  "final_score avg_temp avg_wind avg_precip avg_clouds =
     max 0 (min 100 (raw_score avg_temp avg_wind avg_precip avg_clouds))"

definition rating_of :: "int \<Rightarrow> string" where
  "rating_of score =
     (if score \<ge> 80 then ''Excellent'' else if score \<ge> 60 then ''Good''
      else if score \<ge> 40 then ''Fair'' else ''Poor'')"

text \<open>The rating is taken from the local \<^verbatim>\<open>score\<close>, before the clamp.\<close>

definition rating :: "num \<Rightarrow> num \<Rightarrow> num \<Rightarrow> num \<Rightarrow> string" where
  "rating avg_temp avg_wind avg_precip avg_clouds =
     rating_of (raw_score avg_temp avg_wind avg_precip avg_clouds)"

definition recommendations :: "num \<Rightarrow> num \<Rightarrow> num \<Rightarrow> num \<Rightarrow> string list" where
  "recommendations avg_temp avg_wind avg_precip avg_clouds =
     (if num_less (Fin 20) avg_wind
      then [''High winds - look for sheltered areas and woods''] else []) @
     (if num_less (Fin 40) avg_precip
      then [''Rain likely - bring waterproof gear, birds may be less active''] else []) @
     (if num_less avg_clouds (Fin 20)
      then [''Clear skies - best viewing around dawn/dusk to avoid glare''] else []) @
     (if num_less avg_temp (Fin 10)
      then [''Cool morning - birds may be active feeding early''] else []) @
     (if num_less (Fin 25) avg_temp
      then [''Warm day - focus on early morning and late afternoon''] else [])"

text \<open>\<^verbatim>\<open>daily.get(key, [dflt])[0] if daily.get(key) else dflt\<close>, for sunrise and sunset.\<close>

definition sun_time :: "json \<Rightarrow> string \<Rightarrow> string \<Rightarrow> exn + json" where
  "sun_time daily key dflt =
     bnd (py_get daily key JNull) (\<lambda>c.
       if py_truthy c then bnd (py_get daily key (JArr [JStr dflt])) (py_index 0)
       else Inr (JStr dflt))"

text \<open>
  The dict the function returns, from the four averages and the two times. The two
  f-strings of \<^verbatim>\<open>best_times\<close> are kept as their pieces, the fixed phrase and the value
  formatted after it.
\<close>

definition conditions_report ::
  "runtime \<Rightarrow> num \<Rightarrow> num \<Rightarrow> num \<Rightarrow> num \<Rightarrow> json \<Rightarrow> json \<Rightarrow> json" where
  "conditions_report rt avg_temp avg_wind avg_precip avg_clouds sunrise sunset =
     JObj [
       (''score'', JNum (of_int (final_score avg_temp avg_wind avg_precip avg_clouds))),
       (''rating'', JStr (rating avg_temp avg_wind avg_precip avg_clouds)),
       (''conditions'', JObj [
          (''temperature_c'', json_of_num (rt_round1 rt avg_temp)),
          (''wind_speed_kmh'', json_of_num (rt_round1 rt avg_wind)),
          (''precipitation_chance'', json_of_num (rt_round1 rt avg_precip)),
          (''cloud_cover_percent'', json_of_num (rt_round1 rt avg_clouds))]),
       (''sunrise'', sunrise),
       (''sunset'', sunset),
       (''best_times'', JArr [JArr [JStr ''Dawn chorus: '', sunrise],
                              JArr [JStr ''Golden hour: '', sunset]]),
       (''recommendations'',
          JArr (map JStr
            (let rs = recommendations avg_temp avg_wind avg_precip avg_clouds
             in if rs \<noteq> [] then rs else [''Great conditions for birding!''])))]"

text \<open>The body of the \<^verbatim>\<open>try\<close> block, in the order of the source.\<close>

definition birding_conditions_body ::
  "runtime \<Rightarrow> http \<Rightarrow> real \<Rightarrow> real \<Rightarrow> exn + json" where
  "birding_conditions_body rt http lat lng =
     bnd (http (conditions_request lat lng)) (\<lambda>data.
     bnd (py_get data ''hourly'' (JObj [])) (\<lambda>hourly.
     bnd (py_get data ''daily'' (JObj [])) (\<lambda>daily.
     bnd (morning_window hourly ''temperature_2m'') (\<lambda>morning_temps.
     bnd (morning_window hourly ''wind_speed_10m'') (\<lambda>morning_wind.
     bnd (morning_window hourly ''precipitation_probability'') (\<lambda>morning_precip.
     bnd (morning_window hourly ''cloud_cover'') (\<lambda>morning_clouds.
     bnd (window_average rt morning_temps 15) (\<lambda>avg_temp.
     bnd (window_average rt morning_wind 10) (\<lambda>avg_wind.
     bnd (window_average rt morning_precip 0) (\<lambda>avg_precip.
     bnd (window_average rt morning_clouds 50) (\<lambda>avg_clouds.
     bnd (sun_time daily ''sunrise'' ''06:00'') (\<lambda>sunrise.
     bnd (sun_time daily ''sunset'' ''18:00'') (\<lambda>sunset.
       Inr (conditions_report rt avg_temp avg_wind avg_precip avg_clouds
              sunrise sunset))))))))))))))"

definition get_birding_conditions ::
  "runtime \<Rightarrow> http \<Rightarrow> real \<Rightarrow> real \<Rightarrow> exn + tool_text" where
  "get_birding_conditions rt http lat lng =
     try_except ''Error analyzing birding conditions: ''
       (birding_conditions_body rt http lat lng)"

text \<open>
  The reading of the morning window that the code supports, stated on the list of
  the hourly numbers of one metric: with at most six samples the window is empty and the
  average is the default of the metric; otherwise the window is the samples at the
  indices 6 to 9 that exist, one to four of them, and the average is their sum
  divided by their number.
\<close>

definition partial_window_average :: "runtime \<Rightarrow> num list \<Rightarrow> real \<Rightarrow> exn + num" where
  "partial_window_average rt samples dflt =
     (if length samples \<le> 6 then Inr (Fin dflt)
      else bnd (rt_sum rt (take 4 (drop 6 samples))) (\<lambda>s.
             rt_div rt s (Fin (real (min 4 (length samples - 6))))))"

section \<open>Observation data client (\<^verbatim>\<open>app/tools/ebird.py\<close>)\<close>

text \<open>The two settings \<^verbatim>\<open>EBirdTools.__init__\<close> keeps: the base URL and the API key.\<close>

record ebird_tools =
  base_url :: string
  api_key :: string

definition ebird_headers :: "ebird_tools \<Rightarrow> (string \<times> string) list" where
  "ebird_headers tools = [(''X-eBirdApiToken'', api_key tools)]"

subsection \<open>Region observations\<close>

definition recent_observations_request :: "ebird_tools \<Rightarrow> string \<Rightarrow> int \<Rightarrow> int \<Rightarrow> request" where
  "recent_observations_request tools region_code back_days max_results =
     \<lparr> url = base_url tools @ ''/data/obs/'' @ region_code @ ''/recent'',
       headers = ebird_headers tools,
       params = [(''back'', JNum (of_int (min back_days 30))),
                 (''maxResults'', JNum (of_int max_results))] \<rparr>"

definition observation_entry :: "json \<Rightarrow> exn + json" where
  "observation_entry obs =
     bnd (dict_of_gets obs
       [(''species'', ''comName'', JStr ''Unknown''),
        (''scientific_name'', ''sciName'', JStr []),
        (''location'', ''locName'', JStr ''Unknown location''),
        (''date'', ''obsDt'', JStr []),
        (''count'', ''howMany'', JStr ''X''),
        (''lat'', ''lat'', JNull),
        (''lng'', ''lng'', JNull)]) (\<lambda>kvs. Inr (JObj kvs))"

definition recent_observations_body ::
  "ebird_tools \<Rightarrow> http \<Rightarrow> string \<Rightarrow> int \<Rightarrow> int \<Rightarrow> exn + json" where
  "recent_observations_body tools http region_code back_days max_results =
     bnd (http (recent_observations_request tools region_code back_days max_results))
       (\<lambda>observations.
     bnd (py_iter observations) (\<lambda>items.
     bnd (map_exn observation_entry items) (\<lambda>results. Inr (JArr results))))"

definition get_recent_observations ::
  "ebird_tools \<Rightarrow> http \<Rightarrow> string \<Rightarrow> int \<Rightarrow> int \<Rightarrow> exn + tool_text" where
  "get_recent_observations tools http region_code back_days max_results =
     try_except ''Error fetching observations: ''
       (recent_observations_body tools http region_code back_days max_results)"

definition notable_observations_request :: "ebird_tools \<Rightarrow> string \<Rightarrow> int \<Rightarrow> int \<Rightarrow> request" where
  "notable_observations_request tools region_code back_days max_results =
     \<lparr> url = base_url tools @ ''/data/obs/'' @ region_code @ ''/recent/notable'',
       headers = ebird_headers tools,
       params = [(''back'', JNum (of_int (min back_days 30))),
                 (''maxResults'', JNum (of_int max_results))] \<rparr>"

definition notable_entry :: "json \<Rightarrow> exn + json" where
  "notable_entry obs =
     bnd (dict_of_gets obs
       [(''species'', ''comName'', JStr ''Unknown''),
        (''scientific_name'', ''sciName'', JStr []),
        (''location'', ''locName'', JStr ''Unknown location''),
        (''date'', ''obsDt'', JStr []),
        (''count'', ''howMany'', JStr ''X''),
        (''lat'', ''lat'', JNull),
        (''lng'', ''lng'', JNull),
        (''is_reviewed'', ''obsReviewed'', JBool False),
        (''is_valid'', ''obsValid'', JBool False)]) (\<lambda>kvs. Inr (JObj kvs))"

definition notable_observations_body ::
  "ebird_tools \<Rightarrow> http \<Rightarrow> string \<Rightarrow> int \<Rightarrow> int \<Rightarrow> exn + json" where
  "notable_observations_body tools http region_code back_days max_results =
     bnd (http (notable_observations_request tools region_code back_days max_results))
       (\<lambda>observations.
     bnd (py_iter observations) (\<lambda>items.
     bnd (map_exn notable_entry items) (\<lambda>results. Inr (JArr results))))"

definition get_notable_observations ::
  "ebird_tools \<Rightarrow> http \<Rightarrow> string \<Rightarrow> int \<Rightarrow> int \<Rightarrow> exn + tool_text" where
  "get_notable_observations tools http region_code back_days max_results =
     try_except ''Error fetching notable observations: ''
       (notable_observations_body tools http region_code back_days max_results)"

definition species_observations_request ::
  "ebird_tools \<Rightarrow> string \<Rightarrow> string \<Rightarrow> int \<Rightarrow> int \<Rightarrow> request" where
  "species_observations_request tools species_code region_code back_days max_results =
     \<lparr> url = base_url tools @ ''/data/obs/'' @ region_code @ ''/recent/'' @ species_code,
       headers = ebird_headers tools,
       params = [(''back'', JNum (of_int (min back_days 30))),
                 (''maxResults'', JNum (of_int max_results))] \<rparr>"

definition species_entry :: "json \<Rightarrow> exn + json" where
  "species_entry obs =
     bnd (dict_of_gets obs
       [(''species'', ''comName'', JStr ''Unknown''),
        (''location'', ''locName'', JStr ''Unknown location''),
        (''date'', ''obsDt'', JStr []),
        (''count'', ''howMany'', JStr ''X''),
        (''lat'', ''lat'', JNull),
        (''lng'', ''lng'', JNull)]) (\<lambda>kvs. Inr (JObj kvs))"

definition species_observations_body ::
  "ebird_tools \<Rightarrow> http \<Rightarrow> string \<Rightarrow> string \<Rightarrow> int \<Rightarrow> int \<Rightarrow> exn + json" where
  "species_observations_body tools http species_code region_code back_days max_results =
     bnd (http (species_observations_request tools species_code region_code
                  back_days max_results)) (\<lambda>observations.
     bnd (py_iter observations) (\<lambda>items.
     bnd (map_exn species_entry items) (\<lambda>results. Inr (JArr results))))"

definition get_species_observations ::
  "ebird_tools \<Rightarrow> http \<Rightarrow> string \<Rightarrow> string \<Rightarrow> int \<Rightarrow> int \<Rightarrow> exn + tool_text" where
  "get_species_observations tools http species_code region_code back_days max_results =
     try_except ''Error fetching species observations: ''
       (species_observations_body tools http species_code region_code back_days max_results)"

subsection \<open>Hotspots and regions\<close>

definition nearby_hotspots_request :: "ebird_tools \<Rightarrow> real \<Rightarrow> real \<Rightarrow> int \<Rightarrow> request" where
  "nearby_hotspots_request tools lat lng distance_km =
     \<lparr> url = base_url tools @ ''/ref/hotspot/geo'',
       headers = ebird_headers tools,
       params = [(''lat'', JNum lat), (''lng'', JNum lng),
                 (''dist'', JNum (of_int (min distance_km 50))),
                 (''fmt'', JStr ''json'')] \<rparr>"

definition hotspot_entry :: "json \<Rightarrow> exn + json" where
  "hotspot_entry hs =
     bnd (dict_of_gets hs
       [(''name'', ''locName'', JStr ''Unknown''),
        (''hotspot_id'', ''locId'', JStr []),
        (''lat'', ''lat'', JNull),
        (''lng'', ''lng'', JNull),
        (''country'', ''countryCode'', JStr []),
        (''region'', ''subnational1Code'', JStr []),
        (''species_count'', ''numSpeciesAllTime'', JNum 0),
        (''latest_observation'', ''latestObsDt'', JStr [])]) (\<lambda>kvs. Inr (JObj kvs))"

definition nearby_hotspots_body ::
  "ebird_tools \<Rightarrow> http \<Rightarrow> real \<Rightarrow> real \<Rightarrow> int \<Rightarrow> int \<Rightarrow> exn + json" where
  "nearby_hotspots_body tools http lat lng distance_km max_results =
     bnd (http (nearby_hotspots_request tools lat lng distance_km)) (\<lambda>body.
     bnd (py_slice_to max_results body) (\<lambda>hotspots.
     bnd (py_iter hotspots) (\<lambda>items.
     bnd (map_exn hotspot_entry items) (\<lambda>results. Inr (JArr results)))))"

definition get_nearby_hotspots ::
  "ebird_tools \<Rightarrow> http \<Rightarrow> real \<Rightarrow> real \<Rightarrow> int \<Rightarrow> int \<Rightarrow> exn + tool_text" where
  "get_nearby_hotspots tools http lat lng distance_km max_results =
     try_except ''Error fetching hotspots: ''
       (nearby_hotspots_body tools http lat lng distance_km max_results)"

definition region_info_request :: "ebird_tools \<Rightarrow> string \<Rightarrow> request" where
  "region_info_request tools region_code =
     \<lparr> url = base_url tools @ ''/ref/region/info/'' @ region_code,
       headers = ebird_headers tools, params = [] \<rparr>"

definition region_info_body :: "ebird_tools \<Rightarrow> http \<Rightarrow> string \<Rightarrow> exn + json" where
  "region_info_body tools http region_code =
     bnd (http (region_info_request tools region_code)) (\<lambda>info.
     bnd (py_get info ''result'' (JStr ''Unknown'')) (\<lambda>name.
     bnd (py_get info ''bounds'' (JObj [])) (\<lambda>bounds.
       Inr (JObj [(''name'', name), (''region_code'', JStr region_code),
                  (''bounds'', bounds)]))))"

definition get_region_info :: "ebird_tools \<Rightarrow> http \<Rightarrow> string \<Rightarrow> exn + tool_text" where
  "get_region_info tools http region_code =
     try_except ''Error fetching region info: '' (region_info_body tools http region_code)"

definition hotspot_info_request :: "ebird_tools \<Rightarrow> string \<Rightarrow> request" where
  "hotspot_info_request tools hotspot_id =
     \<lparr> url = base_url tools @ ''/ref/hotspot/info/'' @ hotspot_id,
       headers = ebird_headers tools, params = [] \<rparr>"

definition hotspot_info_body :: "ebird_tools \<Rightarrow> http \<Rightarrow> string \<Rightarrow> exn + json" where
  "hotspot_info_body tools http hotspot_id =
     bnd (http (hotspot_info_request tools hotspot_id)) (\<lambda>info.
     bnd (py_get info ''name'' (JStr ''Unknown'')) (\<lambda>name.
     bnd (py_get info ''latitude'' JNull) (\<lambda>lat.
     bnd (py_get info ''longitude'' JNull) (\<lambda>lng.
     bnd (py_get info ''countryCode'' (JStr [])) (\<lambda>country.
     bnd (py_get info ''subnational1Code'' (JStr [])) (\<lambda>region.
     bnd (py_get info ''numSpeciesAllTime'' (JNum 0)) (\<lambda>species_count.
       Inr (JObj [(''name'', name), (''hotspot_id'', JStr hotspot_id),
                  (''lat'', lat), (''lng'', lng), (''country'', country),
                  (''region'', region), (''species_count'', species_count)]))))))))"

definition get_hotspot_info :: "ebird_tools \<Rightarrow> http \<Rightarrow> string \<Rightarrow> exn + tool_text" where
  "get_hotspot_info tools http hotspot_id =
     try_except ''Error fetching hotspot info: '' (hotspot_info_body tools http hotspot_id)"

subsection \<open>\<^verbatim>\<open>get_taxonomy\<close>\<close>

text \<open>
  Strings are lists of characters with codes below 256. \<^verbatim>\<open>str.lower()\<close> on that range
  moves \<open>A\<close>..\<open>Z\<close> and the upper-case letters of Latin-1 (codes 192 to 222 but 215) by
  32 and leaves every other character.
\<close>

definition lower_char :: "char \<Rightarrow> char" where
  "lower_char c =
     (let n = (of_char c :: nat)
      in if (65 \<le> n \<and> n \<le> 90) \<or> (192 \<le> n \<and> n \<le> 222 \<and> n \<noteq> 215)
         then char_of (n + 32) else c)"

definition lower :: "string \<Rightarrow> string" where
  "lower s = map lower_char s"

text \<open>\<^verbatim>\<open>v.lower()\<close>: only a string has the method.\<close>

fun py_lower :: "json \<Rightarrow> exn + string" where
  "py_lower (JStr s) = Inr (lower s)"
| "py_lower _ = Inl AttributeError"

definition taxonomy_request :: "ebird_tools \<Rightarrow> string option \<Rightarrow> request" where
  "taxonomy_request tools species_codes =
     \<lparr> url = base_url tools @ ''/ref/taxonomy/ebird'',
       headers = ebird_headers tools,
       params = (''fmt'', JStr ''json'') #
                (case species_codes of
                   None \<Rightarrow> []
                 | Some s \<Rightarrow> if s \<noteq> [] then [(''species'', JStr s)] else []) \<rparr>"

text \<open>
  The condition of the comprehension,
  \<^verbatim>\<open>search_lower in t.get("comName", "").lower() or search_lower in t.get("sciName", "").lower()\<close>;
  \<^verbatim>\<open>or\<close> evaluates its right side only when the left one is false. \<^verbatim>\<open>a in b\<close> on strings
  is \<open>sublist a b\<close>: \<open>a\<close> occurs in \<open>b\<close> as a contiguous run.
\<close>

definition taxon_matches :: "string \<Rightarrow> json \<Rightarrow> exn + bool" where
  "taxon_matches search_lower t =
     bnd (py_get t ''comName'' (JStr [])) (\<lambda>c.
     bnd (py_lower c) (\<lambda>com.
       if sublist search_lower com then Inr True
       else bnd (py_get t ''sciName'' (JStr [])) (\<lambda>s.
            bnd (py_lower s) (\<lambda>sci. Inr (sublist search_lower sci)))))"

text \<open>A list comprehension with a condition that may raise.\<close>

fun filter_exn :: "('a \<Rightarrow> exn + bool) \<Rightarrow> 'a list \<Rightarrow> exn + 'a list" where
  "filter_exn p [] = Inr []"
| "filter_exn p (x # xs) =
     bnd (p x) (\<lambda>b. bnd (filter_exn p xs) (\<lambda>r. Inr (if b then x # r else r)))"

text \<open>\<^verbatim>\<open>if search_query: taxonomy = [t for t in taxonomy if ...][:20]\<close>.\<close>

definition taxonomy_search :: "string option \<Rightarrow> json \<Rightarrow> exn + json" where
  "taxonomy_search search_query taxonomy =
     (case search_query of
        None \<Rightarrow> Inr taxonomy
      | Some q \<Rightarrow>
          if q \<noteq> []
          then bnd (py_iter taxonomy) (\<lambda>items.
               bnd (filter_exn (taxon_matches (lower q)) items) (\<lambda>matches.
                 Inr (JArr (slice_to 20 matches))))
          else Inr taxonomy)"

definition taxon_entry :: "json \<Rightarrow> exn + json" where
  "taxon_entry t =
     bnd (dict_of_gets t
       [(''common_name'', ''comName'', JStr []),
        (''scientific_name'', ''sciName'', JStr []),
        (''species_code'', ''speciesCode'', JStr []),
        (''category'', ''category'', JStr []),
        (''order'', ''order'', JStr []),
        (''family'', ''familyComName'', JStr []),
        (''family_scientific'', ''familySciName'', JStr [])]) (\<lambda>kvs. Inr (JObj kvs))"

definition taxonomy_body ::
  "ebird_tools \<Rightarrow> http \<Rightarrow> string option \<Rightarrow> string option \<Rightarrow> exn + json" where
  "taxonomy_body tools http species_codes search_query =
     bnd (http (taxonomy_request tools species_codes)) (\<lambda>taxonomy.
     bnd (taxonomy_search search_query taxonomy) (\<lambda>found.
     bnd (py_slice_to 50 found) (\<lambda>capped.
     bnd (py_iter capped) (\<lambda>items.
     bnd (map_exn taxon_entry items) (\<lambda>results. Inr (JArr results))))))"

definition get_taxonomy ::
  "ebird_tools \<Rightarrow> http \<Rightarrow> string option \<Rightarrow> string option \<Rightarrow> exn + tool_text" where
  "get_taxonomy tools http species_codes search_query =
     try_except ''Error fetching taxonomy: ''
       (taxonomy_body tools http species_codes search_query)"

text \<open>
  The property the specification asks of a returned entry, in its words: the common name
  or the scientific name of the entry contains the query, letter case apart.
\<close>

definition name_contains :: "string \<Rightarrow> json \<Rightarrow> bool" where
  "name_contains q entry =
     ((case py_get entry ''common_name'' JNull of
         Inr (JStr com) \<Rightarrow> sublist (lower q) (lower com) | _ \<Rightarrow> False) \<or>
      (case py_get entry ''scientific_name'' JNull of
         Inr (JStr sci) \<Rightarrow> sublist (lower q) (lower sci) | _ \<Rightarrow> False))"

subsection \<open>\<^verbatim>\<open>get_rare_birds_nearby\<close>\<close>

definition rare_birds_request :: "ebird_tools \<Rightarrow> real \<Rightarrow> real \<Rightarrow> int \<Rightarrow> int \<Rightarrow> request" where
  "rare_birds_request tools lat lng distance_km back_days =
     \<lparr> url = base_url tools @ ''/data/obs/geo/recent/notable'',
       headers = ebird_headers tools,
       params = [(''lat'', JNum lat), (''lng'', JNum lng),
                 (''dist'', JNum (of_int (min distance_km 50))),
                 (''back'', JNum (of_int (min back_days 30)))] \<rparr>"

text \<open>
  One entry of \<open>results\<close>. Its last item is
  \<^verbatim>\<open>round(((obs.get("lat", lat) - lat) ** 2 + (obs.get("lng", lng) - lng) ** 2) ** 0.5 * 111, 1)\<close>.
\<close>

definition rare_entry :: "runtime \<Rightarrow> real \<Rightarrow> real \<Rightarrow> json \<Rightarrow> exn + json" where
  "rare_entry rt lat lng obs =
     bnd (dict_of_gets obs
       [(''species'', ''comName'', JStr ''Unknown''),
        (''scientific_name'', ''sciName'', JStr []),
        (''location'', ''locName'', JStr ''Unknown location''),
        (''date'', ''obsDt'', JStr []),
        (''count'', ''howMany'', JStr ''X''),
        (''lat'', ''lat'', JNull),
        (''lng'', ''lng'', JNull)]) (\<lambda>kvs.
     bnd (py_get obs ''lat'' (JNum lat)) (\<lambda>a.
     bnd (py_num a) (\<lambda>obs_lat.
     bnd (rt_sub rt obs_lat (Fin lat)) (\<lambda>dlat.
     bnd (rt_pow2 rt dlat) (\<lambda>dlat2.
     bnd (py_get obs ''lng'' (JNum lng)) (\<lambda>b.
     bnd (py_num b) (\<lambda>obs_lng.
     bnd (rt_sub rt obs_lng (Fin lng)) (\<lambda>dlng.
     bnd (rt_pow2 rt dlng) (\<lambda>dlng2.
     bnd (rt_add rt dlat2 dlng2) (\<lambda>squares.
     bnd (rt_pow_half rt squares) (\<lambda>degrees.
     bnd (rt_mul rt degrees (Fin 111)) (\<lambda>km.
       Inr (JObj (kvs @
         [(''distance_km'', json_of_num (rt_round1 rt km))]))))))))))))))"

definition rare_birds_results :: "runtime \<Rightarrow> real \<Rightarrow> real \<Rightarrow> json \<Rightarrow> exn + json list" where
  "rare_birds_results rt lat lng observations =
     bnd (py_iter observations) (map_exn (rare_entry rt lat lng))"

text \<open>
  \<^verbatim>\<open>results.sort(key=lambda x: x.get("distance_km", 999))\<close>. The keys are computed for all
  elements first; a key that is not a number is read as a \<^verbatim>\<open>TypeError\<close> of the comparison
  (the entries built above always carry a number there).
\<close>

definition distance_key :: "json \<Rightarrow> exn + num" where
  "distance_key x = bnd (py_get x ''distance_km'' (JNum 999)) py_num"

text \<open>
  Then the list is sorted with \<^verbatim>\<open><\<close> on the keys. Without a NaN among them the keys are
  totally ordered and the result is the stable ascending sort, as Python documents it:
  \<open>sort_key\<close> on the rank of the key, which puts the negative infinity first and the
  positive one last. With a NaN among the keys the order is not total. When no
  element is less than the one before it, the sort finds the list to be one ascending
  run and leaves it as it is; in every other case the result is the runtime's.
\<close>

fun rank :: "num \<Rightarrow> int \<times> real" where
  "rank (Fin r) = (0, r)"
| "rank (Inf s) = (if s then 1 else - 1, 0)"
| "rank Nan = (2, 0)"

fun ascending_run :: "num list \<Rightarrow> bool" where
  "ascending_run [] = True"
| "ascending_run [k] = True"
| "ascending_run (k # k' # ks) = (\<not> num_less k' k \<and> ascending_run (k' # ks))"

definition py_sort :: "runtime \<Rightarrow> (num \<times> json) list \<Rightarrow> (num \<times> json) list" where
  "py_sort rt keyed =
     (if Nan \<notin> set (map fst keyed) then sort_key (\<lambda>p. rank (fst p)) keyed
      else if ascending_run (map fst keyed) then keyed
      else rt_sort_nan rt keyed)"

definition sort_by_distance :: "runtime \<Rightarrow> json list \<Rightarrow> exn + json list" where
  "sort_by_distance rt results =
     bnd (map_exn distance_key results) (\<lambda>keys.
       Inr (map snd (py_sort rt (zip keys results))))"

definition rare_birds_body ::
  "runtime \<Rightarrow> ebird_tools \<Rightarrow> http \<Rightarrow> real \<Rightarrow> real \<Rightarrow> int \<Rightarrow> int \<Rightarrow> exn + json" where
  "rare_birds_body rt tools http lat lng distance_km back_days =
     bnd (http (rare_birds_request tools lat lng distance_km back_days)) (\<lambda>observations.
     bnd (rare_birds_results rt lat lng observations) (\<lambda>results.
     bnd (sort_by_distance rt results) (\<lambda>sorted_results. Inr (JArr sorted_results))))"

definition get_rare_birds_nearby ::
  "runtime \<Rightarrow> ebird_tools \<Rightarrow> http \<Rightarrow> real \<Rightarrow> real \<Rightarrow> int \<Rightarrow> int \<Rightarrow> exn + tool_text" where
  "get_rare_birds_nearby rt tools http lat lng distance_km back_days =
     try_except ''Error fetching rare birds: ''
       (rare_birds_body rt tools http lat lng distance_km back_days)"

text \<open>
  The order the specification asks of the keys of the result, \<^verbatim>\<open>a <= b\<close> on two numbers:
  false when one of them is NaN.
\<close>

definition num_le :: "num \<Rightarrow> num \<Rightarrow> bool" where
  "num_le a b = (a \<noteq> Nan \<and> b \<noteq> Nan \<and> \<not> num_less b a)"

section \<open>Structured-output endpoints (\<^verbatim>\<open>app/main.py\<close>)\<close>

subsection \<open>Text operations\<close>

text \<open>
  The characters \<^verbatim>\<open>str.strip()\<close> removes and the pattern \<^verbatim>\<open>\s\<close> matches, among the codes
  below 256: tab to carriage return, the four separators 28 to 31, the space, and the
  codes 133 and 160.
\<close>

definition is_space :: "char \<Rightarrow> bool" where
  "is_space c =
     (let n = (of_char c :: nat)
      in (9 \<le> n \<and> n \<le> 13) \<or> (28 \<le> n \<and> n \<le> 32) \<or> n = 133 \<or> n = 160)"

definition strip :: "string \<Rightarrow> string" where
  "strip s = rev (dropWhile is_space (rev (dropWhile is_space s)))"

text \<open>\<^verbatim>\<open>v.strip()\<close>: only a string has the method.\<close>

fun py_strip :: "json \<Rightarrow> exn + string" where
  "py_strip (JStr s) = Inr (strip s)"
| "py_strip _ = Inl AttributeError"

text \<open>
  \<^verbatim>\<open>re.search(r'\{[\s\S]*\}', text)\<close>: the match starts at the first \<open>{\<close> and, the star
  being greedy over every character, ends at the last \<open>}\<close> after it. There is no match
  when no \<open>}\<close> follows the first \<open>{\<close>. The result is \<^verbatim>\<open>json_match.group()\<close>.
\<close>

definition brace_span :: "string \<Rightarrow> string option" where
  "brace_span text =
     (let from_open = dropWhile (\<lambda>c. c \<noteq> CHR ''{'') text;
          matched = rev (dropWhile (\<lambda>c. c \<noteq> CHR ''}'') (rev from_open))
      in if matched = [] then None else Some matched)"

text \<open>
  The first occurrence of three backquotes: the text before it and the text after it.
\<close>

fun split_fence :: "string \<Rightarrow> (string \<times> string) option" where
  "split_fence [] = None"
| "split_fence (c # cs) =
     (if prefix ''```'' (c # cs) then Some ([], drop 3 (c # cs))
      else map_option (\<lambda>(before, after). (c # before, after)) (split_fence cs))"

text \<open>
  \<^verbatim>\<open>re.search(r'```(?:json)?\s*([\s\S]*?)\s*```', text)\<close> followed by
  \<^verbatim>\<open>json_match.group(1).strip()\<close>. The search matches at the first fence that has another
  fence after it; \<^verbatim>\<open>json\<close> right after the opening fence is consumed; the lazy group runs
  up to the next fence, and the white space around it goes to the two \<^verbatim>\<open>\s*\<close> or to
  \<^verbatim>\<open>strip()\<close>. Without a second fence there is no match.
\<close>

definition fenced_block :: "string \<Rightarrow> string option" where
  "fenced_block text =
     (case split_fence text of
        None \<Rightarrow> None
      | Some (before, after) \<Rightarrow>
          (case split_fence (if prefix ''json'' after then drop 4 after else after) of
             None \<Rightarrow> None
           | Some (inner, rest) \<Rightarrow> Some (strip inner)))"

text \<open>
  \<^verbatim>\<open>str(v)\<close> is \<open>v\<close> itself on a string; on any other value it is Python's rendering,
  the parameter \<open>repr\<close>.
\<close>

fun py_str :: "(json \<Rightarrow> string) \<Rightarrow> json \<Rightarrow> string" where
  "py_str repr (JStr s) = s"
| "py_str repr v = repr v"

definition dget :: "(string \<times> json) list \<Rightarrow> string \<Rightarrow> json \<Rightarrow> json" where
  "dget kvs k d = (case map_of kvs k of None \<Rightarrow> d | Some v \<Rightarrow> v)"

subsection \<open>Agents and handler results\<close>

text \<open>
  The prompt of each endpoint is a fixed text around the values computed from the
  request; a prompt is modelled by those values. For the area-based targets they are
  the first 30 species, the number of further ones when there are more than 30, the
  date, the coordinates when both are given, and the number of targets.
\<close>

datatype prompt =
    ToursPrompt string
  | AreaPrompt "string list" "nat option" string "(real \<times> real) option" int

text \<open>
  An agent is what \<^verbatim>\<open>agent.run(prompt)\<close> does: it raises, or gives the value
  \<open>response_text\<close> is bound to (\<^verbatim>\<open>response.content\<close> when there is one).
\<close>

type_synonym agent = "prompt \<Rightarrow> exn + json"

text \<open>
  A handler returns a body or raises \<^verbatim>\<open>HTTPException(status_code, detail)\<close>; when the
  detail ends with \<^verbatim>\<open>str(e)\<close> of a caught exception, that exception is the third
  argument. Beside its result each handler gives the prompts it passed to
  \<^verbatim>\<open>agent.run\<close>, in order.
\<close>

datatype handler_result = Response json | HTTPException nat string "exn option"

subsection \<open>\<^verbatim>\<open>find_birding_tours\<close>\<close>

text \<open>The loop body: one cleaned entry, or nothing when the condition fails.\<close>

fun clean_tour :: "(json \<Rightarrow> string) \<Rightarrow> json \<Rightarrow> json option" where
  "clean_tour repr (JObj kvs) =
     (if py_truthy (dget kvs ''title'' JNull) \<and> py_truthy (dget kvs ''url'' JNull)
      then Some (JObj [
        (''title'', JStr (slice_to 200 (py_str repr (dget kvs ''title'' (JStr []))))),
        (''location'', JStr (slice_to 200 (py_str repr (dget kvs ''location'' (JStr []))))),
        (''url'', JStr (strip (py_str repr (dget kvs ''url'' (JStr []))))),
        (''description'',
           if py_truthy (dget kvs ''description'' JNull)
           then JStr (slice_to 300 (py_str repr (dget kvs ''description'' (JStr []))))
           else JNull)])
      else None)"
| "clean_tour repr _ = None"

definition tours_fallback :: "string \<Rightarrow> json" where
  "tours_fallback location =
     JObj [(''tours'', JArr []), (''location'', JStr location),
           (''agent'', JStr ''Birding Tours Agent'')]"

text \<open>
  \<open>loads\<close> is \<^verbatim>\<open>json.loads\<close>, a computation like the others: it gives the value read, or
  the exception raised, \<^verbatim>\<open>json.JSONDecodeError\<close> on a text that is not JSON and, for one,
  \<^verbatim>\<open>RecursionError\<close> on a text nested too deep. The inner \<^verbatim>\<open>try\<close> of both handlers has
  the single clause \<^verbatim>\<open>except json.JSONDecodeError\<close>, after which the fallback is returned;
  any other exception leaves it.
\<close>

fun except_decode_error :: "exn + json \<Rightarrow> json \<Rightarrow> exn + json" where
  "except_decode_error (Inl JSONDecodeError) fallback = Inr fallback"
| "except_decode_error outcome fallback = outcome"

text \<open>What follows \<^verbatim>\<open>json.loads\<close> inside the inner \<^verbatim>\<open>try\<close>, from the value read.\<close>

definition tours_from_data :: "(json \<Rightarrow> string) \<Rightarrow> string \<Rightarrow> json \<Rightarrow> exn + json" where
  "tours_from_data repr location data =
     bnd (py_get data ''tours'' (JArr [])) (\<lambda>tours.
     bnd (py_slice_to 10 tours) (\<lambda>first_ten.
     bnd (py_iter first_ten) (\<lambda>items.
       Inr (JObj [(''tours'', JArr (List.map_filter (clean_tour repr) items)),
                  (''location'', JStr location),
                  (''agent'', JStr ''Birding Tours Agent'')]))))"

text \<open>The body of the outer \<^verbatim>\<open>try\<close> block.\<close>

definition tours_try ::
  "(string \<Rightarrow> exn + json) \<Rightarrow> (json \<Rightarrow> string) \<Rightarrow> exn + json \<Rightarrow> string \<Rightarrow> exn + json" where
  "tours_try loads repr reply location =
     bnd reply (\<lambda>response_text.
     bnd (py_strip response_text) (\<lambda>text.
       case brace_span text of
         None \<Rightarrow> Inr (tours_fallback location)
       | Some matched \<Rightarrow>
           except_decode_error
             (bnd (loads matched) (tours_from_data repr location))
             (tours_fallback location)))"

definition find_birding_tours ::
  "(string \<Rightarrow> exn + json) \<Rightarrow> (json \<Rightarrow> string) \<Rightarrow> agent \<Rightarrow> string
     \<Rightarrow> handler_result \<times> prompt list" where
  "find_birding_tours loads repr agent location =
     (case tours_try loads repr (agent (ToursPrompt location)) location of
        Inr body \<Rightarrow> Response body
      | Inl e \<Rightarrow> HTTPException 500 ''Agent error: '' (Some e),
      [ToursPrompt location])"

subsection \<open>\<^verbatim>\<open>get_area_based_targets\<close>\<close>

text \<open>\<^verbatim>\<open>AreaBasedTargetsRequest\<close> of \<^verbatim>\<open>app/schemas.py\<close>.\<close>

record area_request =
  req_species :: "string list"
  req_lat :: "real option"
  req_longitude :: "real option"
  req_num_targets :: int

definition area_prompt :: "area_request \<Rightarrow> string \<Rightarrow> prompt" where
  "area_prompt req current_date =
     AreaPrompt (slice_to 30 (req_species req))
       (if length (req_species req) > 30 then Some (length (req_species req) - 30) else None)
       current_date
       (case (req_lat req, req_longitude req) of
          (Some la, Some lo) \<Rightarrow> Some (la, lo)
        | _ \<Rightarrow> None)
       (req_num_targets req)"

text \<open>What follows \<^verbatim>\<open>json.loads\<close> inside the inner \<^verbatim>\<open>try\<close>, from the value read.\<close>

definition area_from_data :: "area_request \<Rightarrow> string \<Rightarrow> json \<Rightarrow> exn + json" where
  "area_from_data req current_date data =
     bnd (py_get data ''birds'' (JArr [])) (\<lambda>all_birds.
     bnd (py_slice_to (req_num_targets req) all_birds) (\<lambda>birds.
       Inr (JObj [(''birds'', birds),
                  (''species_analyzed'', JNum (real (length (req_species req)))),
                  (''date'', JStr current_date),
                  (''agent'', JStr ''Life List Coach'')])))"

text \<open>The answer after \<^verbatim>\<open>except json.JSONDecodeError\<close>, with the raw reply.\<close>

definition area_fallback :: "area_request \<Rightarrow> string \<Rightarrow> json \<Rightarrow> json" where
  "area_fallback req current_date response_text =
     JObj [(''birds'', JArr []),
           (''recommendations'', response_text),
           (''species_analyzed'', JNum (real (length (req_species req)))),
           (''date'', JStr current_date),
           (''agent'', JStr ''Life List Coach'')]"

text \<open>The text handed to \<^verbatim>\<open>json.loads\<close>: the fenced block when there is one.\<close>

definition area_text :: "string \<Rightarrow> string" where
  "area_text stripped =
     (case fenced_block stripped of Some inner \<Rightarrow> inner | None \<Rightarrow> stripped)"

definition area_try ::
  "(string \<Rightarrow> exn + json) \<Rightarrow> exn + json \<Rightarrow> area_request \<Rightarrow> string \<Rightarrow> exn + json" where
  "area_try loads reply req current_date =
     bnd reply (\<lambda>response_text.
     bnd (py_strip response_text) (\<lambda>stripped.
       except_decode_error
         (bnd (loads (area_text stripped)) (area_from_data req current_date))
         (area_fallback req current_date response_text)))"

definition get_area_based_targets ::
  "(string \<Rightarrow> exn + json) \<Rightarrow> agent \<Rightarrow> string \<Rightarrow> area_request
     \<Rightarrow> handler_result \<times> prompt list" where
  "get_area_based_targets loads agent current_date req =
     (if req_species req = []
      then (HTTPException 400
              ''At least one species is required. Add birds to your life list first.'' None,
            [])
      else (case area_try loads (agent (area_prompt req current_date)) req current_date of
              Inr body \<Rightarrow> Response body
            | Inl e \<Rightarrow> HTTPException 500 ''Agent error: '' (Some e),
            [area_prompt req current_date]))"

subsection \<open>A reader for JSON texts\<close>

text \<open>
  \<^verbatim>\<open>json.loads\<close> is Python's library, not code of the repository: the handlers above take
  it as the parameter \<open>loads\<close>, and what is proved of them holds for every \<open>loads\<close>. To
  run a handler on a concrete reply, \<open>json_loads\<close> reads the JSON grammar (objects,
  arrays, strings with the one-letter escapes, numbers with fraction and exponent,
  \<^verbatim>\<open>true\<close>, \<^verbatim>\<open>false\<close>, \<^verbatim>\<open>null\<close>, the words \<^verbatim>\<open>NaN\<close>, \<^verbatim>\<open>Infinity\<close> and \<^verbatim>\<open>-Infinity\<close>, white
  space) into \<open>json\<close>, as the library does: a repeated key keeps its first place and
  takes the last value. It answers every text that is not JSON with
  \<open>JSONDecodeError\<close>. Two things are outside it: the escape \<^verbatim>\<open>\uXXXX\<close>, and the
  \<^verbatim>\<open>RecursionError\<close> of the library on a text nested deeper than the interpreter allows.
  The first argument of the three mutually recursive readers bounds the number of calls
  that follow one another; \<open>json_loads\<close> starts them with twice the length of the text
  and two more.
\<close>

definition is_json_ws :: "char \<Rightarrow> bool" where
  "is_json_ws c = (c = CHR '' '' \<or> c = CHR 0x09 \<or> c = CHR 0x0A \<or> c = CHR 0x0D)"

definition skip_ws :: "string \<Rightarrow> string" where
  "skip_ws s = dropWhile is_json_ws s"

definition is_digit :: "char \<Rightarrow> bool" where
  "is_digit c = (48 \<le> (of_char c :: nat) \<and> (of_char c :: nat) \<le> 57)"

text \<open>The value of a run of digits, most significant first.\<close>

definition digits_value :: "string \<Rightarrow> nat" where
  "digits_value ds = foldl (\<lambda>acc c. 10 * acc + (of_char c - 48)) 0 ds"

definition unescape :: "char \<Rightarrow> char option" where
  "unescape c =
     (if c = CHR 0x22 then Some (CHR 0x22)
      else if c = CHR 0x5C then Some (CHR 0x5C)
      else if c = CHR ''/'' then Some (CHR ''/'')
      else if c = CHR ''b'' then Some (CHR 0x08)
      else if c = CHR ''f'' then Some (CHR 0x0C)
      else if c = CHR ''n'' then Some (CHR 0x0A)
      else if c = CHR ''r'' then Some (CHR 0x0D)
      else if c = CHR ''t'' then Some (CHR 0x09)
      else None)"

text \<open>
  The rest of a string after its opening quote: the characters read so far (last
  first), then the text. A control character inside a string is an error.
\<close>

fun read_string :: "string \<Rightarrow> string \<Rightarrow> (string \<times> string) option" where
  "read_string acc [] = None"
| "read_string acc [c] = (if c = CHR 0x22 then Some (rev acc, []) else None)"
| "read_string acc (c # d # cs) =
     (if c = CHR 0x22 then Some (rev acc, d # cs)
      else if c = CHR 0x5C
      then (case unescape d of None \<Rightarrow> None | Some ch \<Rightarrow> read_string (ch # acc) cs)
      else if (of_char c :: nat) < 32 then None
      else read_string (c # acc) (d # cs))"

text \<open>
  A number: an optional minus, \<open>0\<close> or digits not starting with \<open>0\<close>, then an optional
  fraction and an optional exponent, each taken only when it has digits.
\<close>

definition read_number :: "string \<Rightarrow> (json \<times> string) option" where
  "read_number cs =
     (let neg = (cs \<noteq> [] \<and> hd cs = CHR ''-'');
          cs1 = (if neg then tl cs else cs);
          ds = (if cs1 \<noteq> [] \<and> hd cs1 = CHR ''0'' then ''0'' else takeWhile is_digit cs1);
          cs2 = drop (length ds) cs1;
          fs = (if cs2 \<noteq> [] \<and> hd cs2 = CHR ''.'' then takeWhile is_digit (tl cs2) else []);
          cs3 = (if fs = [] then cs2 else drop (length fs + 1) cs2);
          has_e = (cs3 \<noteq> [] \<and> (hd cs3 = CHR ''e'' \<or> hd cs3 = CHR ''E''));
          cs4 = (if has_e then tl cs3 else cs3);
          esign = (if has_e \<and> cs4 \<noteq> [] \<and> (hd cs4 = CHR ''-'' \<or> hd cs4 = CHR ''+'')
                   then [hd cs4] else []);
          es = (if has_e then takeWhile is_digit (drop (length esign) cs4) else []);
          cs5 = (if es = [] then cs3 else drop (length esign + length es) cs4);
          mantissa = real (digits_value ds) + real (digits_value fs) / 10 ^ length fs;
          scaled = (if esign = ''-'' then mantissa / 10 ^ digits_value es
                    else mantissa * 10 ^ digits_value es)
      in if ds = [] then None
         else Some (JNum (if neg then - scaled else scaled), cs5))"

text \<open>\<^verbatim>\<open>d[k] = v\<close> on the items of a dict.\<close>

fun dict_set :: "string \<Rightarrow> json \<Rightarrow> (string \<times> json) list \<Rightarrow> (string \<times> json) list" where
  "dict_set k v [] = [(k, v)]"
| "dict_set k v ((k', v') # kvs) =
     (if k = k' then (k, v) # kvs else (k', v') # dict_set k v kvs)"

fun read_value :: "nat \<Rightarrow> string \<Rightarrow> (json \<times> string) option"
  and read_elements :: "nat \<Rightarrow> json list \<Rightarrow> string \<Rightarrow> (json \<times> string) option"
  and read_members :: "nat \<Rightarrow> (string \<times> json) list \<Rightarrow> string \<Rightarrow> (json \<times> string) option"
where
  "read_value 0 cs = None"
| "read_value (Suc n) [] = None"
| "read_value (Suc n) (c # cs) =
     (if c = CHR ''{''
      then (if prefix ''}'' (skip_ws cs) then Some (JObj [], tl (skip_ws cs))
            else read_members n [] (skip_ws cs))
      else if c = CHR ''[''
      then (if prefix '']'' (skip_ws cs) then Some (JArr [], tl (skip_ws cs))
            else read_elements n [] (skip_ws cs))
      else if c = CHR 0x22
      then map_option (\<lambda>(s, rest). (JStr s, rest)) (read_string [] cs)
      else if prefix ''true'' (c # cs) then Some (JBool True, drop 4 (c # cs))
      else if prefix ''false'' (c # cs) then Some (JBool False, drop 5 (c # cs))
      else if prefix ''null'' (c # cs) then Some (JNull, drop 4 (c # cs))
      else if prefix ''NaN'' (c # cs) then Some (JNaN, drop 3 (c # cs))
      else if prefix ''Infinity'' (c # cs) then Some (JInf True, drop 8 (c # cs))
      else if prefix ''-Infinity'' (c # cs) then Some (JInf False, drop 9 (c # cs))
      else read_number (c # cs))"
| "read_elements 0 acc cs = None"
| "read_elements (Suc n) acc cs =
     (case read_value n cs of
        None \<Rightarrow> None
      | Some (v, rest) \<Rightarrow>
          (if prefix '','' (skip_ws rest)
           then read_elements n (v # acc) (skip_ws (tl (skip_ws rest)))
           else if prefix '']'' (skip_ws rest)
           then Some (JArr (rev (v # acc)), tl (skip_ws rest))
           else None))"
| "read_members 0 acc cs = None"
| "read_members (Suc n) acc cs =
     (if \<not> prefix [CHR 0x22] cs then None
      else case read_string [] (tl cs) of
        None \<Rightarrow> None
      | Some (k, rest) \<Rightarrow>
          (if \<not> prefix '':'' (skip_ws rest) then None
           else case read_value n (skip_ws (tl (skip_ws rest))) of
             None \<Rightarrow> None
           | Some (v, rest') \<Rightarrow>
               (if prefix '','' (skip_ws rest')
                then read_members n (dict_set k v acc) (skip_ws (tl (skip_ws rest')))
                else if prefix ''}'' (skip_ws rest')
                then Some (JObj (dict_set k v acc), tl (skip_ws rest'))
                else None)))"

definition json_loads :: "string \<Rightarrow> exn + json" where
  "json_loads s =
     (case read_value (2 * length s + 2) (skip_ws s) of
        None \<Rightarrow> Inl JSONDecodeError
      | Some (v, rest) \<Rightarrow> if skip_ws rest = [] then Inr v else Inl JSONDecodeError)"

section \<open>Properties\<close>

subsection \<open>Computations that may raise\<close>

lemma bnd_Inl: "bnd (Inl e) f = Inl e"
  by (simp add: bnd_def)

lemma bnd_Inr: "bnd (Inr x) f = f x"
  by (simp add: bnd_def)

lemma bnd_eq_Inr: "bnd m f = Inr y \<longleftrightarrow> (\<exists>x. m = Inr x \<and> f x = Inr y)"
  by (cases m) (simp_all add: bnd_def)

lemma try_except_Payload: "try_except msg body = Inr (Payload v) \<longleftrightarrow> body = Inr v"
  by (cases body) (simp_all add: try_except_def)

subsection \<open>The conditions score\<close>

lemma wind_penalty_bounds: "0 \<le> wind_penalty w \<and> wind_penalty w \<le> 30"
  by (simp add: wind_penalty_def)

lemma precip_penalty_bounds: "0 \<le> precip_penalty p \<and> precip_penalty p \<le> 40"
  by (simp add: precip_penalty_def)

lemma cloud_penalty_bounds: "0 \<le> cloud_penalty c \<and> cloud_penalty c \<le> 10"
  by (simp add: cloud_penalty_def)

lemma temp_penalty_bounds: "0 \<le> temp_penalty t \<and> temp_penalty t \<le> 15"
  by (simp add: temp_penalty_def)

lemma raw_score_bounds: "5 \<le> raw_score t w p c \<and> raw_score t w p c \<le> 100"
  using wind_penalty_bounds [of w] precip_penalty_bounds [of p]
    cloud_penalty_bounds [of c] temp_penalty_bounds [of t]
  by (simp add: raw_score_def)

lemma final_score_raw: "final_score t w p c = raw_score t w p c"
  using raw_score_bounds [of t w p c] by (simp add: final_score_def)

lemma rating_of_iff:
  "(rating_of s = ''Excellent'' \<longleftrightarrow> 80 \<le> s) \<and>
   (rating_of s = ''Good'' \<longleftrightarrow> 60 \<le> s \<and> s < 80) \<and>
   (rating_of s = ''Fair'' \<longleftrightarrow> 40 \<le> s \<and> s < 60) \<and>
   (rating_of s = ''Poor'' \<longleftrightarrow> s < 40)"
  by (simp add: rating_of_def)

lemma birding_conditions_body_report:
  assumes "birding_conditions_body rt http lat lng = Inr v"
  shows "\<exists>t w p c sunrise sunset. v = conditions_report rt t w p c sunrise sunset"
  using assms unfolding birding_conditions_body_def bnd_eq_Inr by blast

lemma report_entries:
  "py_get (conditions_report rt t w p c sunrise sunset) ''score'' JNull
     = Inr (JNum (of_int (final_score t w p c)))"
  "py_get (conditions_report rt t w p c sunrise sunset) ''rating'' JNull
     = Inr (JStr (rating t w p c))"
  by (simp_all add: conditions_report_def)

text \<open>
  Claim C2. Whenever \<open>get_birding_conditions\<close> returns a report and not an error text,
  whatever the upstream answered and whatever the arithmetic of the runtime gave for the
  four averages, the report is the one built from four averages, the number under its
  key \<^verbatim>\<open>score\<close> is an integer between 0 and 100, and the text under its key \<^verbatim>\<open>rating\<close> is
  Excellent exactly from 80, Good exactly from 60 to 79, Fair exactly from 40 to 59 and
  Poor exactly below 40; the six boundary scores 80, 79, 60, 59, 40, 39 get the ratings
  Excellent, Good, Good, Fair, Fair, Poor.
\<close>

theorem score_clamped_rating_exact:
  assumes "get_birding_conditions rt http lat lng = Inr (Payload v)"
  shows "(\<exists>t w p c sunrise sunset score r.
            v = conditions_report rt t w p c sunrise sunset \<and>
            py_get v ''score'' JNull = Inr (JNum (of_int score)) \<and>
            py_get v ''rating'' JNull = Inr (JStr r) \<and>
            score = final_score t w p c \<and> r = rating_of (raw_score t w p c) \<and>
            r = rating_of score \<and>
            0 \<le> score \<and> score \<le> 100 \<and>
            (r = ''Excellent'' \<longleftrightarrow> 80 \<le> score) \<and>
            (r = ''Good'' \<longleftrightarrow> 60 \<le> score \<and> score < 80) \<and>
            (r = ''Fair'' \<longleftrightarrow> 40 \<le> score \<and> score < 60) \<and>
            (r = ''Poor'' \<longleftrightarrow> score < 40)) \<and>
         rating_of 80 = ''Excellent'' \<and> rating_of 79 = ''Good'' \<and> rating_of 60 = ''Good'' \<and>
         rating_of 59 = ''Fair'' \<and> rating_of 40 = ''Fair'' \<and> rating_of 39 = ''Poor''"
proof -
  from assms have "birding_conditions_body rt http lat lng = Inr v"
    by (simp add: get_birding_conditions_def try_except_Payload)
  then obtain t w p c sunrise sunset
    where v: "v = conditions_report rt t w p c sunrise sunset"
    using birding_conditions_body_report by blast
  let ?s = "final_score t w p c"
  have range: "0 \<le> ?s" "?s \<le> 100"
    using raw_score_bounds [of t w p c] by (simp_all add: final_score_raw)
  have r: "rating t w p c = rating_of ?s" "rating t w p c = rating_of (raw_score t w p c)"
    by (simp_all add: rating_def final_score_raw)
  have bounds: "rating_of 80 = ''Excellent''" "rating_of 79 = ''Good''"
    "rating_of 60 = ''Good''" "rating_of 59 = ''Fair''" "rating_of 40 = ''Fair''"
    "rating_of 39 = ''Poor''"
    by (simp_all add: rating_of_def)
  have "\<exists>score r.
            py_get v ''score'' JNull = Inr (JNum (of_int score)) \<and>
            py_get v ''rating'' JNull = Inr (JStr r) \<and>
            score = final_score t w p c \<and> r = rating_of (raw_score t w p c) \<and>
            r = rating_of score \<and>
            0 \<le> score \<and> score \<le> 100 \<and>
            (r = ''Excellent'' \<longleftrightarrow> 80 \<le> score) \<and>
            (r = ''Good'' \<longleftrightarrow> 60 \<le> score \<and> score < 80) \<and>
            (r = ''Fair'' \<longleftrightarrow> 40 \<le> score \<and> score < 60) \<and>
            (r = ''Poor'' \<longleftrightarrow> score < 40)"
    apply (rule exI [of _ ?s])
    apply (rule exI [of _ "rating t w p c"])
    using range r rating_of_iff [of ?s] unfolding v report_entries
    apply (intro conjI)
              apply simp_all
    done
  with v bounds show ?thesis by blast
qed

text \<open>
  The operation on a day of 24 equal hours, 12 degrees, wind 25, precipitation 45 and
  clouds 50: the report returned has the score 65 and the rating Good.
\<close>

theorem score_clamped_rating_exact_witness:
  "get_birding_conditions exact
     (\<lambda>r. Inr (JObj [(''hourly'', JObj [
        (''temperature_2m'', JArr (replicate 24 (JNum 12))),
        (''wind_speed_10m'', JArr (replicate 24 (JNum 25))),
        (''precipitation_probability'', JArr (replicate 24 (JNum 45))),
        (''cloud_cover'', JArr (replicate 24 (JNum 50)))])])) 0 0
     = Inr (Payload (conditions_report exact (Fin 12) (Fin 25) (Fin 45) (Fin 50)
                       (JStr ''06:00'') (JStr ''18:00''))) \<and>
   py_get (conditions_report exact (Fin 12) (Fin 25) (Fin 45) (Fin 50)
             (JStr ''06:00'') (JStr ''18:00'')) ''score'' JNull = Inr (JNum 65) \<and>
   py_get (conditions_report exact (Fin 12) (Fin 25) (Fin 45) (Fin 50)
             (JStr ''06:00'') (JStr ''18:00'')) ''rating'' JNull = Inr (JStr ''Good'') \<and>
   (\<exists>score r.
      py_get (conditions_report exact (Fin 12) (Fin 25) (Fin 45) (Fin 50)
                (JStr ''06:00'') (JStr ''18:00'')) ''score'' JNull
        = Inr (JNum (of_int score)) \<and>
      py_get (conditions_report exact (Fin 12) (Fin 25) (Fin 45) (Fin 50)
                (JStr ''06:00'') (JStr ''18:00'')) ''rating'' JNull = Inr (JStr r) \<and>
      r = rating_of score \<and> 0 \<le> score \<and> score \<le> 100)"
  (is "?run \<and> ?score \<and> ?rating \<and> ?range")
proof -
  have run: ?run
    by code_simp
  have entries: ?score ?rating
    by code_simp+
  from score_clamped_rating_exact [OF run] have ?range
    by blast
  with run entries show ?thesis
    by (intro conjI)
qed

text \<open>
  Claim C9. Whenever \<open>get_birding_conditions\<close> returns a report, the number under its key
  \<^verbatim>\<open>score\<close> is 100 less the four penalties of the averages it was built from. One tier
  per metric applies, so the penalties are at most 30, 40, 10 and 15 and at most 95
  together; the score lies between 5 and 100, and the clamp leaves it as it is: the
  lower bound 0 is never reached.
\<close>

theorem penalty_at_most_95:
  assumes "get_birding_conditions rt http lat lng = Inr (Payload v)"
  shows "\<exists>t w p c sunrise sunset.
           v = conditions_report rt t w p c sunrise sunset \<and>
           py_get v ''score'' JNull = Inr (JNum (of_int (raw_score t w p c))) \<and>
           raw_score t w p c
             = 100 - (wind_penalty w + precip_penalty p + cloud_penalty c + temp_penalty t) \<and>
           wind_penalty w \<le> 30 \<and> precip_penalty p \<le> 40 \<and> cloud_penalty c \<le> 10 \<and>
           temp_penalty t \<le> 15 \<and>
           wind_penalty w + precip_penalty p + cloud_penalty c + temp_penalty t \<le> 95 \<and>
           5 \<le> raw_score t w p c \<and> raw_score t w p c \<le> 100 \<and>
           max 0 (min 100 (raw_score t w p c)) = raw_score t w p c \<and>
           min 100 (raw_score t w p c) \<noteq> 0 \<and> 0 < min 100 (raw_score t w p c)"
proof -
  from assms have "birding_conditions_body rt http lat lng = Inr v"
    by (simp add: get_birding_conditions_def try_except_Payload)
  then obtain t w p c sunrise sunset
    where v: "v = conditions_report rt t w p c sunrise sunset"
    using birding_conditions_body_report by blast
  have s: "py_get v ''score'' JNull = Inr (JNum (of_int (raw_score t w p c)))"
    unfolding v report_entries final_score_raw ..
  have e: "raw_score t w p c
             = 100 - (wind_penalty w + precip_penalty p + cloud_penalty c + temp_penalty t)"
    by (simp add: raw_score_def)
  have b: "wind_penalty w \<le> 30" "precip_penalty p \<le> 40" "cloud_penalty c \<le> 10"
    "temp_penalty t \<le> 15"
    using wind_penalty_bounds [of w] precip_penalty_bounds [of p]
      cloud_penalty_bounds [of c] temp_penalty_bounds [of t] by simp_all
  then have total: "wind_penalty w + precip_penalty p + cloud_penalty c + temp_penalty t \<le> 95"
    by simp
  have r: "5 \<le> raw_score t w p c" "raw_score t w p c \<le> 100"
    using raw_score_bounds [of t w p c] by simp_all
  then have cl: "max 0 (min 100 (raw_score t w p c)) = raw_score t w p c"
    "min 100 (raw_score t w p c) \<noteq> 0" "0 < min 100 (raw_score t w p c)"
    by simp_all
  show ?thesis
    using v s e b total r cl by blast
qed

text \<open>
  The operation on a day where every metric is in its worst tier, 3 degrees below zero,
  wind 31, precipitation 71 and clouds 91: the report returned has the score 5.
\<close>

theorem penalty_at_most_95_witness:
  "get_birding_conditions exact
     (\<lambda>r. Inr (JObj [(''hourly'', JObj [
        (''temperature_2m'', JArr (replicate 24 (JNum (- 3)))),
        (''wind_speed_10m'', JArr (replicate 24 (JNum 31))),
        (''precipitation_probability'', JArr (replicate 24 (JNum 71))),
        (''cloud_cover'', JArr (replicate 24 (JNum 91)))])])) 0 0
     = Inr (Payload (conditions_report exact (Fin (- 3)) (Fin 31) (Fin 71) (Fin 91)
                       (JStr ''06:00'') (JStr ''18:00''))) \<and>
   py_get (conditions_report exact (Fin (- 3)) (Fin 31) (Fin 71) (Fin 91)
             (JStr ''06:00'') (JStr ''18:00'')) ''score'' JNull = Inr (JNum 5) \<and>
   (\<exists>t w p c.
      py_get (conditions_report exact (Fin (- 3)) (Fin 31) (Fin 71) (Fin 91)
                (JStr ''06:00'') (JStr ''18:00'')) ''score'' JNull
        = Inr (JNum (of_int (raw_score t w p c))) \<and>
      5 \<le> raw_score t w p c \<and> raw_score t w p c \<le> 100 \<and>
      max 0 (min 100 (raw_score t w p c)) = raw_score t w p c)"
  (is "?run \<and> ?score \<and> ?range")
proof -
  have run: ?run
    by code_simp
  have score: ?score
    by code_simp
  from penalty_at_most_95 [OF run] have ?range
    by blast
  with run score show ?thesis
    by (intro conjI)
qed

text \<open>
  Claim C8. With the morning averages wind 35, precipitation 80, clouds 95 and
  temperature 40 the penalties are 30, 40, 10 and 15, the score is 5 and the rating Poor;
  the recommendations are the high-wind, the rain and the warm-day messages, three in
  all; and without sunrise and sunset in the upstream data the report carries 06:00 and
  18:00. The last conjunct runs the whole operation on such a response.
\<close>

theorem harsh_morning_report:
  "wind_penalty (Fin 35) = 30 \<and> precip_penalty (Fin 80) = 40 \<and>
   cloud_penalty (Fin 95) = 10 \<and> temp_penalty (Fin 40) = 15 \<and>
   raw_score (Fin 40) (Fin 35) (Fin 80) (Fin 95) = 5 \<and>
   final_score (Fin 40) (Fin 35) (Fin 80) (Fin 95) = 5 \<and>
   rating (Fin 40) (Fin 35) (Fin 80) (Fin 95) = ''Poor'' \<and>
   recommendations (Fin 40) (Fin 35) (Fin 80) (Fin 95) =
     [''High winds - look for sheltered areas and woods'',
      ''Rain likely - bring waterproof gear, birds may be less active'',
      ''Warm day - focus on early morning and late afternoon''] \<and>
   length (recommendations (Fin 40) (Fin 35) (Fin 80) (Fin 95)) = 3 \<and>
   sun_time (JObj []) ''sunrise'' ''06:00'' = Inr (JStr ''06:00'') \<and>
   sun_time (JObj []) ''sunset'' ''18:00'' = Inr (JStr ''18:00'') \<and>
   get_birding_conditions exact
     (\<lambda>r. Inr (JObj [(''hourly'', JObj [
        (''temperature_2m'', JArr (replicate 24 (JNum 40))),
        (''wind_speed_10m'', JArr (replicate 24 (JNum 35))),
        (''precipitation_probability'', JArr (replicate 24 (JNum 80))),
        (''cloud_cover'', JArr (replicate 24 (JNum 95)))])])) 0 0
     = Inr (Payload (JObj [
         (''score'', JNum 5),
         (''rating'', JStr ''Poor''),
         (''conditions'', JObj [(''temperature_c'', JNum 40), (''wind_speed_kmh'', JNum 35),
            (''precipitation_chance'', JNum 80), (''cloud_cover_percent'', JNum 95)]),
         (''sunrise'', JStr ''06:00''),
         (''sunset'', JStr ''18:00''),
         (''best_times'', JArr [JArr [JStr ''Dawn chorus: '', JStr ''06:00''],
                                JArr [JStr ''Golden hour: '', JStr ''18:00'']]),
         (''recommendations'', JArr
            [JStr ''High winds - look for sheltered areas and woods'',
             JStr ''Rain likely - bring waterproof gear, birds may be less active'',
             JStr ''Warm day - focus on early morning and late afternoon''])]))"
  by code_simp

subsection \<open>The morning window\<close>

lemma py_num_json_of_num: "py_num (json_of_num x) = Inr x"
  by (cases x) simp_all

lemma map_exn_py_num: "map_exn py_num (map json_of_num xs) = Inr xs"
  by (induction xs) (simp_all add: bnd_Inr py_num_json_of_num)

lemma morning_window_numbers:
  assumes "py_get hourly key (JArr []) = Inr (JArr (map json_of_num samples))"
  shows "morning_window hourly key = Inr (JArr (map json_of_num (take 4 (drop 6 samples))))"
  using assms by (simp add: morning_window_def bnd_Inr slice_list_def take_map drop_map)

lemma window_average_numbers:
  "window_average rt (JArr (map json_of_num (take 4 (drop 6 samples)))) dflt
     = partial_window_average rt samples dflt"
proof (cases "length samples \<le> 6")
  case True
  then show ?thesis
    by (simp add: window_average_def partial_window_average_def)
next
  case False
  then have "take 4 (drop 6 samples) \<noteq> []"
    by simp
  moreover have "length (take 4 (drop 6 samples)) = min 4 (length samples - 6)"
    by simp
  ultimately show ?thesis
    using False
    by (simp add: window_average_def partial_window_average_def py_sum_def bnd_Inr
          map_exn_py_num)
qed

lemma partial_window_average_cases:
  assumes "partial_window_average rt samples dflt = Inr avg"
  shows "length samples \<le> 6 \<longrightarrow> avg = Fin dflt"
    and "6 < length samples \<longrightarrow>
           (\<exists>s. rt_sum rt (take 4 (drop 6 samples)) = Inr s \<and>
                rt_div rt s (Fin (real (min 4 (length samples - 6)))) = Inr avg)"
  using assms
  by (auto simp: partial_window_average_def bnd_eq_Inr split: if_splits)

text \<open>
  Claim C1 says that a morning window of fewer than four samples makes the score come
  from the default values. It does not: with eight hourly samples the window holds two,
  and the wind average is theirs, 40, not the default 10; the operation returns the
  report of the averages 15, 40, 0 and 50, with the score 70, where the defaults would
  give 100.
\<close>

theorem partial_window_counterexample:
  "morning_window
     (JObj [(''temperature_2m'', JArr (replicate 8 (JNum 15))),
            (''wind_speed_10m'', JArr (replicate 6 (JNum 5) @ [JNum 40, JNum 40])),
            (''precipitation_probability'', JArr (replicate 8 (JNum 0))),
            (''cloud_cover'', JArr (replicate 8 (JNum 50)))])
     ''wind_speed_10m'' = Inr (JArr [JNum 40, JNum 40]) \<and>
   get_birding_conditions exact
     (\<lambda>r. Inr (JObj [(''hourly'', JObj [
        (''temperature_2m'', JArr (replicate 8 (JNum 15))),
        (''wind_speed_10m'', JArr (replicate 6 (JNum 5) @ [JNum 40, JNum 40])),
        (''precipitation_probability'', JArr (replicate 8 (JNum 0))),
        (''cloud_cover'', JArr (replicate 8 (JNum 50)))])])) 0 0
     = Inr (Payload (conditions_report exact (Fin 15) (Fin 40) (Fin 0) (Fin 50)
                       (JStr ''06:00'') (JStr ''18:00''))) \<and>
   py_get (conditions_report exact (Fin 15) (Fin 40) (Fin 0) (Fin 50)
             (JStr ''06:00'') (JStr ''18:00'')) ''score'' JNull = Inr (JNum 70) \<and>
   final_score (Fin 15) (Fin 40) (Fin 0) (Fin 50) = 70 \<and>
   final_score (Fin 15) (Fin 10) (Fin 0) (Fin 50) = 100"
  by code_simp

text \<open>
  Claim C1, as the code has it. On a response whose four hourly lists hold numbers,
  \<open>get_birding_conditions\<close> returns the report built from the four averages below, and
  the number under its key \<^verbatim>\<open>score\<close> is the score of these averages. The average of a
  metric is its default, 15 for the temperature, 10 for the wind, 0 for the
  precipitation and 50 for the clouds, when the list of the metric has at most six
  samples, so that its window is empty; with more than six samples it is the sum of the
  samples at the indices 6 to 9 that exist, one to four of them, divided by their
  number. The sum and the quotient are those of the runtime.
\<close>

theorem score_from_partial_window_averages:
  assumes "http (conditions_request lat lng) = Inr data"
    and "py_get data ''hourly'' (JObj []) = Inr hourly"
    and "py_get data ''daily'' (JObj []) = Inr daily"
    and "py_get hourly ''temperature_2m'' (JArr []) = Inr (JArr (map json_of_num temps))"
    and "py_get hourly ''wind_speed_10m'' (JArr []) = Inr (JArr (map json_of_num winds))"
    and "py_get hourly ''precipitation_probability'' (JArr [])
           = Inr (JArr (map json_of_num precips))"
    and "py_get hourly ''cloud_cover'' (JArr []) = Inr (JArr (map json_of_num clouds))"
    and "partial_window_average rt temps 15 = Inr avg_temp"
    and "partial_window_average rt winds 10 = Inr avg_wind"
    and "partial_window_average rt precips 0 = Inr avg_precip"
    and "partial_window_average rt clouds 50 = Inr avg_clouds"
    and "sun_time daily ''sunrise'' ''06:00'' = Inr sunrise"
    and "sun_time daily ''sunset'' ''18:00'' = Inr sunset"
  shows "get_birding_conditions rt http lat lng
           = Inr (Payload (conditions_report rt avg_temp avg_wind avg_precip avg_clouds
                             sunrise sunset)) \<and>
         py_get (conditions_report rt avg_temp avg_wind avg_precip avg_clouds sunrise sunset)
             ''score'' JNull
           = Inr (JNum (of_int (final_score avg_temp avg_wind avg_precip avg_clouds))) \<and>
         (length temps \<le> 6 \<longrightarrow> avg_temp = Fin 15) \<and>
         (length winds \<le> 6 \<longrightarrow> avg_wind = Fin 10) \<and>
         (length precips \<le> 6 \<longrightarrow> avg_precip = Fin 0) \<and>
         (length clouds \<le> 6 \<longrightarrow> avg_clouds = Fin 50) \<and>
         (6 < length temps \<longrightarrow>
            (\<exists>s. rt_sum rt (take 4 (drop 6 temps)) = Inr s \<and>
                 rt_div rt s (Fin (real (min 4 (length temps - 6)))) = Inr avg_temp)) \<and>
         (6 < length winds \<longrightarrow>
            (\<exists>s. rt_sum rt (take 4 (drop 6 winds)) = Inr s \<and>
                 rt_div rt s (Fin (real (min 4 (length winds - 6)))) = Inr avg_wind)) \<and>
         (6 < length precips \<longrightarrow>
            (\<exists>s. rt_sum rt (take 4 (drop 6 precips)) = Inr s \<and>
                 rt_div rt s (Fin (real (min 4 (length precips - 6)))) = Inr avg_precip)) \<and>
         (6 < length clouds \<longrightarrow>
            (\<exists>s. rt_sum rt (take 4 (drop 6 clouds)) = Inr s \<and>
                 rt_div rt s (Fin (real (min 4 (length clouds - 6)))) = Inr avg_clouds))"
proof -
  note w = morning_window_numbers [OF assms(4)] morning_window_numbers [OF assms(5)]
    morning_window_numbers [OF assms(6)] morning_window_numbers [OF assms(7)]
  have "birding_conditions_body rt http lat lng
          = Inr (conditions_report rt avg_temp avg_wind avg_precip avg_clouds sunrise sunset)"
    unfolding birding_conditions_body_def assms(1-3) w bnd_Inr window_average_numbers
      assms(8-13) ..
  then have run: "get_birding_conditions rt http lat lng
           = Inr (Payload (conditions_report rt avg_temp avg_wind avg_precip avg_clouds
                             sunrise sunset))"
    by (simp add: get_birding_conditions_def try_except_def)
  note score = report_entries(1) [of rt avg_temp avg_wind avg_precip avg_clouds sunrise sunset]
  note c = partial_window_average_cases [OF assms(8)] partial_window_average_cases [OF assms(9)]
    partial_window_average_cases [OF assms(10)] partial_window_average_cases [OF assms(11)]
  from run score c show ?thesis
    by (intro conjI)
qed

text \<open>
  The theorem on a response with eight wind samples and no other list: the temperature,
  the precipitation and the clouds take their defaults 15, 0 and 50, the wind is the
  average 40 of the two samples in its window, and the score is 70.
\<close>

theorem score_from_partial_window_averages_witness:
  "get_birding_conditions exact
     (\<lambda>r. Inr (JObj [(''hourly'', JObj [
        (''wind_speed_10m'',
           JArr [JNum 5, JNum 5, JNum 5, JNum 5, JNum 5, JNum 5, JNum 40, JNum 40])])])) 0 0
     = Inr (Payload (conditions_report exact (Fin 15) (Fin 40) (Fin 0) (Fin 50)
                       (JStr ''06:00'') (JStr ''18:00''))) \<and>
   partial_window_average exact
     [Fin 5, Fin 5, Fin 5, Fin 5, Fin 5, Fin 5, Fin 40, Fin 40] 10 = Inr (Fin 40) \<and>
   partial_window_average exact [] 15 = Inr (Fin 15) \<and>
   final_score (Fin 15) (Fin 40) (Fin 0) (Fin 50) = 70"
proof -
  let ?hourly = "JObj [(''wind_speed_10m'',
           JArr [JNum 5, JNum 5, JNum 5, JNum 5, JNum 5, JNum 5, JNum 40, JNum 40])]"
  let ?data = "JObj [(''hourly'', ?hourly)]"
  let ?winds = "[Fin 5, Fin 5, Fin 5, Fin 5, Fin 5, Fin 5, Fin 40, Fin 40]"
  have h1: "(\<lambda>r. Inr ?data) (conditions_request 0 0) = Inr ?data"
    by simp
  have h2: "py_get ?data ''hourly'' (JObj []) = Inr ?hourly"
    and h3: "py_get ?data ''daily'' (JObj []) = Inr (JObj [])"
    and h4: "py_get ?hourly ''temperature_2m'' (JArr []) = Inr (JArr (map json_of_num []))"
    and h5: "py_get ?hourly ''wind_speed_10m'' (JArr []) = Inr (JArr (map json_of_num ?winds))"
    and h6: "py_get ?hourly ''precipitation_probability'' (JArr [])
               = Inr (JArr (map json_of_num []))"
    and h7: "py_get ?hourly ''cloud_cover'' (JArr []) = Inr (JArr (map json_of_num []))"
    by simp_all
  have h8: "partial_window_average exact [] 15 = Inr (Fin 15)"
    and h10: "partial_window_average exact [] 0 = Inr (Fin 0)"
    and h11: "partial_window_average exact [] 50 = Inr (Fin 50)"
    by (simp_all add: partial_window_average_def)
  have h9: "partial_window_average exact ?winds 10 = Inr (Fin 40)"
    by code_simp
  have h12: "sun_time (JObj []) ''sunrise'' ''06:00'' = Inr (JStr ''06:00'')"
    and h13: "sun_time (JObj []) ''sunset'' ''18:00'' = Inr (JStr ''18:00'')"
    by (simp_all add: sun_time_def bnd_Inr)
  have s: "final_score (Fin 15) (Fin 40) (Fin 0) (Fin 50) = 70"
    by code_simp
  from score_from_partial_window_averages
    [where http = "\<lambda>r. Inr ?data" and lat = 0 and lng = 0,
     OF h1 h2 h3 h4 h5 h6 h7 h8 h9 h10 h11 h12 h13]
  have "get_birding_conditions exact (\<lambda>r. Inr ?data) 0 0
          = Inr (Payload (conditions_report exact (Fin 15) (Fin 40) (Fin 0) (Fin 50)
                            (JStr ''06:00'') (JStr ''18:00'')))"
    by (rule conjunct1)
  with h9 h8 s show ?thesis
    by (intro conjI)
qed

subsection \<open>Rare birds nearby: the order of the result\<close>

lemma map_exn_Inr_iff: "map_exn f xs = Inr ys \<longleftrightarrow> list_all2 (\<lambda>x y. f x = Inr y) xs ys"
proof (induction xs arbitrary: ys)
  case Nil
  then show ?case by auto
next
  case (Cons x xs)
  show ?case
  proof (cases ys)
    case Nil
    then show ?thesis by (auto simp: bnd_eq_Inr)
  next
    case (Cons y ys')
    then show ?thesis using Cons.IH [of ys'] by (auto simp: bnd_eq_Inr)
  qed
qed

lemma map_exn_of_pairs:
  "\<forall>p \<in> set zs. f (snd p) = Inr (fst p) \<Longrightarrow> map_exn f (map snd zs) = Inr (map fst zs)"
  by (induction zs) (simp_all add: bnd_Inr)

lemma keyed_pairs:
  assumes "list_all2 (\<lambda>r k. f r = Inr k) rs ks"
  shows "\<forall>p \<in> set (zip ks rs). f (snd p) = Inr (fst p)"
  using assms by (induction rs ks rule: list_all2_induct) auto

lemma rank_le: "a \<noteq> Nan \<Longrightarrow> b \<noteq> Nan \<Longrightarrow> rank a \<le> rank b \<longleftrightarrow> num_le a b"
  by (cases a; cases b) (auto simp: num_le_def)

lemma rank_inj: "rank a = rank b \<longleftrightarrow> a = b"
  by (cases a; cases b) (auto split: if_splits)

lemma sorted_ranks:
  assumes "sorted (map rank ks)" and "Nan \<notin> set ks"
  shows "sorted_wrt num_le ks"
proof -
  from assms(1) have ranks: "sorted_wrt (\<lambda>a b. rank a \<le> rank b) ks"
    by (simp add: sorted_map)
  show ?thesis
  proof (rule sorted_wrt_mono_rel [OF _ ranks])
    fix a b
    assume "a \<in> set ks" "b \<in> set ks" "rank a \<le> rank b"
    with assms(2) have "a \<noteq> Nan" "b \<noteq> Nan" "rank a \<le> rank b"
      by auto
    then show "num_le a b"
      by (simp add: rank_le)
  qed
qed

lemma sort_by_distance_props:
  assumes "map_exn distance_key rs = Inr ks" and "Nan \<notin> set ks"
  shows "\<exists>out keys. sort_by_distance rt rs = Inr out \<and>
           map_exn distance_key out = Inr keys \<and> sorted_wrt num_le keys \<and>
           mset out = mset rs \<and>
           (\<forall>k. filter (\<lambda>r. distance_key r = Inr k) out
                  = filter (\<lambda>r. distance_key r = Inr k) rs)"
proof -
  let ?zs = "zip ks rs"
  let ?sorted = "sort_key (\<lambda>p. rank (fst p)) ?zs"
  let ?out = "map snd ?sorted"
  from assms(1) have all2: "list_all2 (\<lambda>r k. distance_key r = Inr k) rs ks"
    by (simp add: map_exn_Inr_iff)
  then have len: "length ks = length rs"
    by (simp add: list_all2_lengthD)
  then have fst_zs: "map fst ?zs = ks" and snd_zs: "map snd ?zs = rs"
    by simp_all
  have nonan: "Nan \<notin> set (map fst ?zs)"
    unfolding fst_zs by (rule assms(2))
  then have sort: "py_sort rt ?zs = ?sorted"
    by (simp add: py_sort_def)
  have out: "sort_by_distance rt rs = Inr ?out"
    unfolding sort_by_distance_def assms(1) bnd_Inr sort ..
  have pairs: "\<forall>p \<in> set ?zs. distance_key (snd p) = Inr (fst p)"
    using keyed_pairs [OF all2] .
  then have pairs': "\<forall>p \<in> set ?sorted. distance_key (snd p) = Inr (fst p)"
    by simp
  have keys: "map_exn distance_key ?out = Inr (map fst ?sorted)"
    using map_exn_of_pairs [OF pairs'] .
  have "sorted (map (\<lambda>p. rank (fst p)) ?sorted)"
    by (rule sorted_sort_key)
  then have "sorted (map rank (map fst ?sorted))"
    by (simp add: comp_def)
  moreover have "Nan \<notin> set (map fst ?sorted)"
    using nonan by simp
  ultimately have sorted: "sorted_wrt num_le (map fst ?sorted)"
    by (rule sorted_ranks)
  have "mset ?out = image_mset snd (mset ?zs)"
    by simp
  also have "\<dots> = mset (map snd ?zs)"
    by simp
  finally have perm: "mset ?out = mset rs"
    unfolding snd_zs .
  have stable: "filter (\<lambda>r. distance_key r = Inr k) ?out
                  = filter (\<lambda>r. distance_key r = Inr k) rs" for k
  proof -
    have "filter (\<lambda>r. distance_key r = Inr k) ?out
            = map snd (filter (\<lambda>p. distance_key (snd p) = Inr k) ?sorted)"
      by (simp add: filter_map comp_def)
    also have "filter (\<lambda>p. distance_key (snd p) = Inr k) ?sorted
            = filter (\<lambda>p. rank (fst p) = rank k) ?sorted"
      using pairs' by (intro filter_cong) (auto simp: rank_inj)
    also have "\<dots> = filter (\<lambda>p. rank (fst p) = rank k) ?zs"
      by (rule sort_key_stable)
    also have "\<dots> = filter (\<lambda>p. distance_key (snd p) = Inr k) ?zs"
      using pairs by (intro filter_cong) (auto simp: rank_inj)
    also have "map snd \<dots> = filter (\<lambda>r. distance_key r = Inr k) (map snd ?zs)"
      by (simp add: filter_map comp_def)
    finally show ?thesis
      unfolding snd_zs .
  qed
  show ?thesis
    using out keys sorted perm stable by blast
qed

lemma dict_of_gets_keys: "dict_of_gets obs fs = Inr kvs \<Longrightarrow> map fst kvs = map fst fs"
proof (induction fs arbitrary: kvs)
  case Nil
  then show ?case by simp
next
  case (Cons f fs)
  obtain k src d where f: "f = (k, src, d)" by (cases f)
  from Cons.prems obtain v r where "dict_of_gets obs fs = Inr r" "kvs = (k, v) # r"
    unfolding f by (auto simp: bnd_eq_Inr)
  then show ?case using Cons.IH [of r] by (simp add: f)
qed

lemma rare_entry_has_distance:
  assumes "rare_entry rt lat lng obs = Inr r"
  shows "\<exists>kvs d. r = JObj kvs \<and> map_of kvs ''distance_km'' = Some (json_of_num d)"
proof -
  from assms obtain kvs d where kvs: "dict_of_gets obs
       [(''species'', ''comName'', JStr ''Unknown''),
        (''scientific_name'', ''sciName'', JStr []),
        (''location'', ''locName'', JStr ''Unknown location''),
        (''date'', ''obsDt'', JStr []),
        (''count'', ''howMany'', JStr ''X''),
        (''lat'', ''lat'', JNull),
        (''lng'', ''lng'', JNull)] = Inr kvs"
    and r: "r = JObj (kvs @ [(''distance_km'', json_of_num d)])"
    unfolding rare_entry_def bnd_eq_Inr by blast
  have "map fst kvs = [''species'', ''scientific_name'', ''location'', ''date'', ''count'',
                       ''lat'', ''lng'']"
    using dict_of_gets_keys [OF kvs] by simp
  then have "''distance_km'' \<notin> set (map fst kvs)"
    by simp
  then have "map_of kvs ''distance_km'' = None"
    by (simp add: map_of_eq_None_iff)
  then have "map_of (kvs @ [(''distance_km'', json_of_num d)]) ''distance_km''
               = Some (json_of_num d)"
    by (simp add: map_add_def)
  then show ?thesis using r by blast
qed

lemma rare_results_have_distance:
  assumes "rare_birds_results rt lat lng observations = Inr results"
  shows "\<forall>r \<in> set results. \<exists>kvs d. r = JObj kvs \<and>
           map_of kvs ''distance_km'' = Some (json_of_num d)"
proof -
  from assms obtain items where "map_exn (rare_entry rt lat lng) items = Inr results"
    by (auto simp: rare_birds_results_def bnd_eq_Inr)
  then have "list_all2 (\<lambda>x y. rare_entry rt lat lng x = Inr y) items results"
    by (simp add: map_exn_Inr_iff)
  then show ?thesis
  proof (induction rule: list_all2_induct)
    case Nil
    show ?case by simp
  next
    case (Cons x xs y ys)
    from rare_entry_has_distance [OF Cons.hyps(1)] Cons.IH show ?case
      by simp
  qed
qed

lemma distance_key_of_entry:
  "map_of kvs ''distance_km'' = Some (json_of_num d) \<Longrightarrow> distance_key (JObj kvs) = Inr d"
  by (simp add: distance_key_def bnd_Inr py_num_json_of_num)

lemma rare_results_keys:
  assumes "\<forall>r \<in> set results. \<exists>kvs d. r = JObj kvs \<and>
             map_of kvs ''distance_km'' = Some (json_of_num d)"
  shows "\<exists>ks. map_exn distance_key results = Inr ks"
  using assms
proof (induction results)
  case Nil
  then show ?case by simp
next
  case (Cons r rs)
  then obtain ks where "map_exn distance_key rs = Inr ks" by auto
  moreover from Cons.prems obtain d where "distance_key r = Inr d"
    by (auto dest: distance_key_of_entry)
  ultimately show ?case by (simp add: bnd_Inr)
qed

lemma sqrt_25: "sqrt 25 = 5"
proof -
  have "sqrt ((5::real)\<^sup>2) = 5" by (simp only: real_sqrt_abs abs_numeral)
  then show ?thesis by simp
qed

lemma round_tenth_whole: "round_tenth 555 = 555" "round_tenth 0 = 0"
  by (simp_all add: round_tenth_def Let_def)

text \<open>
  Claim C4 says that the result is sorted whatever the upstream answers. It is not: the
  JSON reader of the HTTP client accepts \<^verbatim>\<open>NaN\<close>, and a sighting with such a latitude gets
  the distance \<^verbatim>\<open>NaN\<close>. Every comparison with \<^verbatim>\<open>NaN\<close> is false, so the sort finds the
  distances 555, \<^verbatim>\<open>NaN\<close>, 0 already in order and leaves the list as it is: the sighting at
  the query point comes last, after the one 555 km away.
\<close>

theorem nan_distance_counterexample:
  "get_rare_birds_nearby exact \<lparr>base_url = ''https://api.ebird.org/v2'', api_key = ''k''\<rparr>
     (\<lambda>r. Inr (JArr [
        JObj [(''comName'', JStr ''Ruff''), (''lat'', JNum 3), (''lng'', JNum 4)],
        JObj [(''comName'', JStr ''Smew''), (''lat'', JNaN), (''lng'', JNum 0)],
        JObj [(''comName'', JStr ''Brant''), (''lat'', JNum 0), (''lng'', JNum 0)]]))
     0 0 50 7
   = Inr (Payload (JArr [
        JObj [(''species'', JStr ''Ruff''), (''scientific_name'', JStr []),
              (''location'', JStr ''Unknown location''), (''date'', JStr []),
              (''count'', JStr ''X''), (''lat'', JNum 3), (''lng'', JNum 4),
              (''distance_km'', JNum 555)],
        JObj [(''species'', JStr ''Smew''), (''scientific_name'', JStr []),
              (''location'', JStr ''Unknown location''), (''date'', JStr []),
              (''count'', JStr ''X''), (''lat'', JNaN), (''lng'', JNum 0),
              (''distance_km'', JNaN)],
        JObj [(''species'', JStr ''Brant''), (''scientific_name'', JStr []),
              (''location'', JStr ''Unknown location''), (''date'', JStr []),
              (''count'', JStr ''X''), (''lat'', JNum 0), (''lng'', JNum 0),
              (''distance_km'', JNum 0)]])) \<and>
   num_less (Fin 0) (Fin 555) \<and>
   \<not> sorted_wrt num_le [Fin 555, Nan, Fin 0] \<and>
   \<not> sorted_wrt (\<lambda>a b. \<not> num_less b a) [Fin 555, Nan, Fin 0]"
  by (simp add: get_rare_birds_nearby_def try_except_def rare_birds_body_def
        rare_birds_results_def rare_entry_def sort_by_distance_def distance_key_def
        py_sort_def exact_def bnd_Inr sqrt_25 round_tenth_whole num_le_def)

text \<open>
  Claim C4, as the code has it. When the upstream answers, the records are built without
  an exception, and no record gets the distance \<^verbatim>\<open>NaN\<close>, \<open>get_rare_birds_nearby\<close> returns
  the records in non-decreasing order of \<open>distance_km\<close>. The sort is stable: for every
  distance the records at that distance stand in the upstream order, and the result is
  a permutation of the records. Every record returned carries a \<open>distance_km\<close>, so the
  default 999 of the sort key is never used; it is the key of a record without the
  entry. The subtraction, the powers, the product and the rounding are those of the
  runtime.
\<close>

theorem rare_birds_sorted_by_distance:
  assumes "http (rare_birds_request tools lat lng distance_km back_days) = Inr observations"
    and "rare_birds_results rt lat lng observations = Inr results"
    and "\<forall>r \<in> set results. distance_key r \<noteq> Inr Nan"
  shows "\<exists>out keys.
           get_rare_birds_nearby rt tools http lat lng distance_km back_days
             = Inr (Payload (JArr out)) \<and>
           map_exn distance_key out = Inr keys \<and> sorted_wrt num_le keys \<and>
           mset out = mset results \<and>
           (\<forall>k. filter (\<lambda>r. distance_key r = Inr k) out
                  = filter (\<lambda>r. distance_key r = Inr k) results) \<and>
           (\<forall>r \<in> set out. \<exists>kvs d. r = JObj kvs \<and>
              map_of kvs ''distance_km'' = Some (json_of_num d)) \<and>
           (\<forall>kvs. map_of kvs ''distance_km'' = None \<longrightarrow>
              distance_key (JObj kvs) = Inr (Fin 999))"
proof -
  have carried: "\<forall>r \<in> set results. \<exists>kvs d. r = JObj kvs \<and>
                   map_of kvs ''distance_km'' = Some (json_of_num d)"
    using rare_results_have_distance [OF assms(2)] .
  then obtain ks where ks: "map_exn distance_key results = Inr ks"
    using rare_results_keys by blast
  then have "list_all2 (\<lambda>r k. distance_key r = Inr k) results ks"
    by (simp add: map_exn_Inr_iff)
  then have "\<forall>k \<in> set ks. \<exists>r \<in> set results. distance_key r = Inr k"
    by (induction rule: list_all2_induct) auto
  with assms(3) have nonan: "Nan \<notin> set ks"
    by blast
  from sort_by_distance_props [OF ks nonan, of rt] obtain out keys where
    so: "sort_by_distance rt results = Inr out"
    and k: "map_exn distance_key out = Inr keys" "sorted_wrt num_le keys"
    and m: "mset out = mset results"
    and st: "\<forall>k. filter (\<lambda>r. distance_key r = Inr k) out
                  = filter (\<lambda>r. distance_key r = Inr k) results"
    by blast
  have run: "get_rare_birds_nearby rt tools http lat lng distance_km back_days
               = Inr (Payload (JArr out))"
    by (simp add: get_rare_birds_nearby_def try_except_def rare_birds_body_def
          assms(1,2) so bnd_Inr)
  have "set out = set results"
    using m by (rule mset_eq_setD)
  then have d: "\<forall>r \<in> set out. \<exists>kvs d. r = JObj kvs \<and>
                  map_of kvs ''distance_km'' = Some (json_of_num d)"
    using carried by simp
  have dflt: "\<forall>kvs. map_of kvs ''distance_km'' = None \<longrightarrow>
                distance_key (JObj kvs) = Inr (Fin 999)"
    by (simp add: distance_key_def bnd_Inr)
  show ?thesis
    using run k m st d dflt by blast
qed

text \<open>
  Three sightings, the first and the last at the same distance 555 and the second at the
  query point: the second comes first, and the two at 555 keep their upstream order.
\<close>

theorem rare_birds_sorted_by_distance_witness:
  "get_rare_birds_nearby exact \<lparr>base_url = ''https://api.ebird.org/v2'', api_key = ''k''\<rparr>
     (\<lambda>r. Inr (JArr [
        JObj [(''comName'', JStr ''Ruff''), (''lat'', JNum 3), (''lng'', JNum 4)],
        JObj [(''comName'', JStr ''Smew''), (''lat'', JNum 0), (''lng'', JNum 0)],
        JObj [(''comName'', JStr ''Brant''), (''lat'', JNum (-3)), (''lng'', JNum (-4))]]))
     0 0 50 7
   = Inr (Payload (JArr [
        JObj [(''species'', JStr ''Smew''), (''scientific_name'', JStr []),
              (''location'', JStr ''Unknown location''), (''date'', JStr []),
              (''count'', JStr ''X''), (''lat'', JNum 0), (''lng'', JNum 0),
              (''distance_km'', JNum 0)],
        JObj [(''species'', JStr ''Ruff''), (''scientific_name'', JStr []),
              (''location'', JStr ''Unknown location''), (''date'', JStr []),
              (''count'', JStr ''X''), (''lat'', JNum 3), (''lng'', JNum 4),
              (''distance_km'', JNum 555)],
        JObj [(''species'', JStr ''Brant''), (''scientific_name'', JStr []),
              (''location'', JStr ''Unknown location''), (''date'', JStr []),
              (''count'', JStr ''X''), (''lat'', JNum (-3)), (''lng'', JNum (-4)),
              (''distance_km'', JNum 555)]])) \<and>
   (\<exists>keys. map_exn distance_key [
        JObj [(''species'', JStr ''Smew''), (''scientific_name'', JStr []),
              (''location'', JStr ''Unknown location''), (''date'', JStr []),
              (''count'', JStr ''X''), (''lat'', JNum 0), (''lng'', JNum 0),
              (''distance_km'', JNum 0)],
        JObj [(''species'', JStr ''Ruff''), (''scientific_name'', JStr []),
              (''location'', JStr ''Unknown location''), (''date'', JStr []),
              (''count'', JStr ''X''), (''lat'', JNum 3), (''lng'', JNum 4),
              (''distance_km'', JNum 555)],
        JObj [(''species'', JStr ''Brant''), (''scientific_name'', JStr []),
              (''location'', JStr ''Unknown location''), (''date'', JStr []),
              (''count'', JStr ''X''), (''lat'', JNum (-3)), (''lng'', JNum (-4)),
              (''distance_km'', JNum 555)]] = Inr keys \<and> sorted_wrt num_le keys)"
  (is "?call = Inr (Payload (JArr ?sorted)) \<and> ?keys")
proof -
  let ?tools = "\<lparr>base_url = ''https://api.ebird.org/v2'', api_key = ''k''\<rparr>"
  let ?obs = "JArr [
        JObj [(''comName'', JStr ''Ruff''), (''lat'', JNum 3), (''lng'', JNum 4)],
        JObj [(''comName'', JStr ''Smew''), (''lat'', JNum 0), (''lng'', JNum 0)],
        JObj [(''comName'', JStr ''Brant''), (''lat'', JNum (-3)), (''lng'', JNum (-4))]]"
  let ?results = "[
        JObj [(''species'', JStr ''Ruff''), (''scientific_name'', JStr []),
              (''location'', JStr ''Unknown location''), (''date'', JStr []),
              (''count'', JStr ''X''), (''lat'', JNum 3), (''lng'', JNum 4),
              (''distance_km'', JNum 555)],
        JObj [(''species'', JStr ''Smew''), (''scientific_name'', JStr []),
              (''location'', JStr ''Unknown location''), (''date'', JStr []),
              (''count'', JStr ''X''), (''lat'', JNum 0), (''lng'', JNum 0),
              (''distance_km'', JNum 0)],
        JObj [(''species'', JStr ''Brant''), (''scientific_name'', JStr []),
              (''location'', JStr ''Unknown location''), (''date'', JStr []),
              (''count'', JStr ''X''), (''lat'', JNum (-3)), (''lng'', JNum (-4)),
              (''distance_km'', JNum 555)]]"
  have h: "(\<lambda>r. Inr ?obs) (rare_birds_request ?tools 0 0 50 7) = Inr ?obs"
    by simp
  have rs: "rare_birds_results exact 0 0 ?obs = Inr ?results"
    by (simp add: rare_birds_results_def rare_entry_def exact_def bnd_Inr sqrt_25
          round_tenth_whole)
  have nonan: "\<forall>r \<in> set ?results. distance_key r \<noteq> Inr Nan"
    by (simp add: distance_key_def bnd_Inr)
  have run: "?call = Inr (Payload (JArr ?sorted))"
    by (simp add: get_rare_birds_nearby_def try_except_def rare_birds_body_def rs
          sort_by_distance_def distance_key_def py_sort_def bnd_Inr)
  from rare_birds_sorted_by_distance [where http = "\<lambda>r. Inr ?obs", OF h rs nonan]
  obtain out keys where o: "?call = Inr (Payload (JArr out))"
    and k: "map_exn distance_key out = Inr keys" "sorted_wrt num_le keys"
    by blast
  from o run have "out = ?sorted"
    by simp
  with k have ?keys
    by blast
  with run show ?thesis
    by (intro conjI)
qed

subsection \<open>Clamped radius and look-back\<close>

text \<open>
  Claim C5. A geo operation called with a radius above 50 sends the radius 50, and an
  observation operation called with more than 30 days back sends 30. Nothing else
  changes: the operation gives what the same call with 50 (or 30) gives, with no error
  of its own.
\<close>

theorem radius_and_lookback_clamped:
  "(50 < distance_km \<longrightarrow>
      map_of (params (nearby_hotspots_request tools lat lng distance_km)) ''dist''
        = Some (JNum 50) \<and>
      map_of (params (rare_birds_request tools lat lng distance_km back_days)) ''dist''
        = Some (JNum 50) \<and>
      get_nearby_hotspots tools http lat lng distance_km max_results
        = get_nearby_hotspots tools http lat lng 50 max_results \<and>
      get_rare_birds_nearby rt tools http lat lng distance_km back_days
        = get_rare_birds_nearby rt tools http lat lng 50 back_days) \<and>
   (30 < back_days \<longrightarrow>
      map_of (params (recent_observations_request tools region_code back_days max_results))
        ''back'' = Some (JNum 30) \<and>
      map_of (params (notable_observations_request tools region_code back_days max_results))
        ''back'' = Some (JNum 30) \<and>
      map_of (params (species_observations_request tools species_code region_code back_days
                        max_results)) ''back'' = Some (JNum 30) \<and>
      map_of (params (rare_birds_request tools lat lng distance_km back_days)) ''back''
        = Some (JNum 30) \<and>
      get_recent_observations tools http region_code back_days max_results
        = get_recent_observations tools http region_code 30 max_results \<and>
      get_notable_observations tools http region_code back_days max_results
        = get_notable_observations tools http region_code 30 max_results \<and>
      get_species_observations tools http species_code region_code back_days max_results
        = get_species_observations tools http species_code region_code 30 max_results \<and>
      get_rare_birds_nearby rt tools http lat lng distance_km back_days
        = get_rare_birds_nearby rt tools http lat lng distance_km 30)"
proof (intro conjI impI)
  assume d: "50 < distance_km"
  then have m: "min distance_km 50 = 50" by simp
  show "map_of (params (nearby_hotspots_request tools lat lng distance_km)) ''dist''
          = Some (JNum 50)"
    by (simp add: nearby_hotspots_request_def m)
  show "map_of (params (rare_birds_request tools lat lng distance_km back_days)) ''dist''
          = Some (JNum 50)"
    by (simp add: rare_birds_request_def m)
  have "nearby_hotspots_request tools lat lng distance_km
          = nearby_hotspots_request tools lat lng 50"
    by (simp add: nearby_hotspots_request_def m)
  then show "get_nearby_hotspots tools http lat lng distance_km max_results
          = get_nearby_hotspots tools http lat lng 50 max_results"
    by (simp add: get_nearby_hotspots_def nearby_hotspots_body_def)
  have "rare_birds_request tools lat lng distance_km back_days
          = rare_birds_request tools lat lng 50 back_days"
    by (simp add: rare_birds_request_def m)
  then show "get_rare_birds_nearby rt tools http lat lng distance_km back_days
          = get_rare_birds_nearby rt tools http lat lng 50 back_days"
    by (simp add: get_rare_birds_nearby_def rare_birds_body_def)
next
  assume b: "30 < back_days"
  then have m: "min back_days 30 = 30" by simp
  show "map_of (params (recent_observations_request tools region_code back_days max_results))
          ''back'' = Some (JNum 30)"
    by (simp add: recent_observations_request_def m)
  show "map_of (params (notable_observations_request tools region_code back_days max_results))
          ''back'' = Some (JNum 30)"
    by (simp add: notable_observations_request_def m)
  show "map_of (params (species_observations_request tools species_code region_code back_days
                          max_results)) ''back'' = Some (JNum 30)"
    by (simp add: species_observations_request_def m)
  show "map_of (params (rare_birds_request tools lat lng distance_km back_days)) ''back''
          = Some (JNum 30)"
    by (simp add: rare_birds_request_def m)
  have "recent_observations_request tools region_code back_days max_results
          = recent_observations_request tools region_code 30 max_results"
    by (simp add: recent_observations_request_def m)
  then show "get_recent_observations tools http region_code back_days max_results
          = get_recent_observations tools http region_code 30 max_results"
    by (simp add: get_recent_observations_def recent_observations_body_def)
  have "notable_observations_request tools region_code back_days max_results
          = notable_observations_request tools region_code 30 max_results"
    by (simp add: notable_observations_request_def m)
  then show "get_notable_observations tools http region_code back_days max_results
          = get_notable_observations tools http region_code 30 max_results"
    by (simp add: get_notable_observations_def notable_observations_body_def)
  have "species_observations_request tools species_code region_code back_days max_results
          = species_observations_request tools species_code region_code 30 max_results"
    by (simp add: species_observations_request_def m)
  then show "get_species_observations tools http species_code region_code back_days max_results
          = get_species_observations tools http species_code region_code 30 max_results"
    by (simp add: get_species_observations_def species_observations_body_def)
  have "rare_birds_request tools lat lng distance_km back_days
          = rare_birds_request tools lat lng distance_km 30"
    by (simp add: rare_birds_request_def m)
  then show "get_rare_birds_nearby rt tools http lat lng distance_km back_days
          = get_rare_birds_nearby rt tools http lat lng distance_km 30"
    by (simp add: get_rare_birds_nearby_def rare_birds_body_def)
qed

text \<open>
  \<open>get_nearby_hotspots\<close> with the radius 80, against an upstream that answers a request
  of radius 50 and refuses any other: the request carries 50 and the hotspot comes back.
\<close>

theorem radius_and_lookback_clamped_witness:
  "map_of (params (nearby_hotspots_request
       \<lparr>base_url = ''https://api.ebird.org/v2'', api_key = ''k''\<rparr> 42 (-71) 80)) ''dist''
     = Some (JNum 50) \<and>
   map_of (params (rare_birds_request
       \<lparr>base_url = ''https://api.ebird.org/v2'', api_key = ''k''\<rparr> 42 (-71) 80 45)) ''back''
     = Some (JNum 30) \<and>
   get_nearby_hotspots \<lparr>base_url = ''https://api.ebird.org/v2'', api_key = ''k''\<rparr>
     (\<lambda>r. if map_of (params r) ''dist'' = Some (JNum 50)
          then Inr (JArr [JObj [(''locName'', JStr ''Plum Island'')]])
          else Inl HTTPStatusError) 42 (-71) 80 20
     = Inr (Payload (JArr [JObj [
         (''name'', JStr ''Plum Island''), (''hotspot_id'', JStr []), (''lat'', JNull),
         (''lng'', JNull), (''country'', JStr []), (''region'', JStr []),
         (''species_count'', JNum 0), (''latest_observation'', JStr [])]]))"
proof -
  have run50: "get_nearby_hotspots \<lparr>base_url = ''https://api.ebird.org/v2'', api_key = ''k''\<rparr>
     (\<lambda>r. if map_of (params r) ''dist'' = Some (JNum 50)
          then Inr (JArr [JObj [(''locName'', JStr ''Plum Island'')]])
          else Inl HTTPStatusError) 42 (-71) 50 20
     = Inr (Payload (JArr [JObj [
         (''name'', JStr ''Plum Island''), (''hotspot_id'', JStr []), (''lat'', JNull),
         (''lng'', JNull), (''country'', JStr []), (''region'', JStr []),
         (''species_count'', JNum 0), (''latest_observation'', JStr [])]]))"
    by (simp add: get_nearby_hotspots_def try_except_def nearby_hotspots_body_def
          nearby_hotspots_request_def hotspot_entry_def slice_to_def bnd_Inr)
  show ?thesis
    using radius_and_lookback_clamped
      [where distance_km = 80
          and tools = "\<lparr>base_url = ''https://api.ebird.org/v2'', api_key = ''k''\<rparr>"
          and lat = 42 and lng = "-71" and back_days = 45 and max_results = 20
          and http = "(\<lambda>r. if map_of (params r) ''dist'' = Some (JNum 50)
          then Inr (JArr [JObj [(''locName'', JStr ''Plum Island'')]])
          else Inl HTTPStatusError)"]
      run50
    by simp
qed

subsection \<open>Area-based targets: the empty life list\<close>

text \<open>
  Claim C10. A request for area-based targets with an empty species list is answered by
  the HTTP error 400 with the message that asks to add birds to the life list first, and
  no prompt is passed to \<open>agent.run\<close>.
\<close>

theorem empty_life_list_rejected:
  assumes "req_species req = []"
  shows "get_area_based_targets loads agent current_date req =
           (HTTPException 400
              ''At least one species is required. Add birds to your life list first.'' None,
            [])"
  using assms by (simp add: get_area_based_targets_def)

text \<open>
  The theorem at a request with no species.
\<close>

theorem empty_life_list_rejected_witness:
  "get_area_based_targets json_loads (\<lambda>p. Inr (JStr ''{}'')) ''November 04, 2026''
     \<lparr>req_species = [], req_lat = None, req_longitude = None, req_num_targets = 3\<rparr> =
     (HTTPException 400
        ''At least one species is required. Add birds to your life list first.'' None,
      [])"
  using empty_life_list_rejected
    [of "\<lparr>req_species = [], req_lat = None, req_longitude = None, req_num_targets = 3\<rparr>"
        json_loads "\<lambda>p. Inr (JStr ''{}'')" "''November 04, 2026''"]
  by simp

subsection \<open>Taxonomy search\<close>

lemma filter_exn_Inr:
  "filter_exn p xs = Inr ys \<Longrightarrow> ys = filter (\<lambda>x. p x = Inr True) xs"
proof (induction xs arbitrary: ys)
  case Nil
  then show ?case by simp
next
  case (Cons x xs)
  from Cons.prems obtain b r where b: "p x = Inr b" and r: "filter_exn p xs = Inr r"
    and ys: "ys = (if b then x # r else r)"
    by (auto simp: bnd_eq_Inr)
  from Cons.IH [OF r] have "r = filter (\<lambda>x. p x = Inr True) xs" .
  then show ?case using b ys by simp
qed

lemma taxon_matches_True:
  assumes "taxon_matches ql t = Inr True"
  shows "\<exists>kvs. t = JObj kvs \<and>
           ((\<exists>com. dget kvs ''comName'' (JStr []) = JStr com \<and> sublist ql (lower com)) \<or>
            (\<exists>sci. dget kvs ''sciName'' (JStr []) = JStr sci \<and> sublist ql (lower sci)))"
proof (cases t)
  case (JObj kvs)
  from assms obtain com where com: "py_lower (dget kvs ''comName'' (JStr [])) = Inr com"
    and rest: "(if sublist ql com then Inr True
                else bnd (py_get t ''sciName'' (JStr [])) (\<lambda>s.
                     bnd (py_lower s) (\<lambda>sci. Inr (sublist ql sci)))) = Inr True"
    unfolding taxon_matches_def JObj by (auto simp: bnd_eq_Inr dget_def)
  from com obtain c where c: "dget kvs ''comName'' (JStr []) = JStr c" "com = lower c"
    by (cases "dget kvs ''comName'' (JStr [])") auto
  show ?thesis
  proof (cases "sublist ql com")
    case True
    then show ?thesis using JObj c by blast
  next
    case False
    with rest obtain sci where sci: "py_lower (dget kvs ''sciName'' (JStr [])) = Inr sci"
      and hit: "sublist ql sci"
      unfolding JObj by (auto simp: bnd_eq_Inr dget_def)
    from sci obtain s where "dget kvs ''sciName'' (JStr []) = JStr s" "sci = lower s"
      by (cases "dget kvs ''sciName'' (JStr [])") auto
    then show ?thesis using JObj hit by blast
  qed
qed (use assms in \<open>simp_all add: taxon_matches_def bnd_Inl\<close>)

lemma taxon_entry_names:
  assumes "taxon_entry (JObj kvs) = Inr e"
  shows "py_get e ''common_name'' JNull = Inr (dget kvs ''comName'' (JStr []))"
    and "py_get e ''scientific_name'' JNull = Inr (dget kvs ''sciName'' (JStr []))"
  using assms by (auto simp: taxon_entry_def bnd_Inr dget_def)

lemma matched_entry_contains:
  assumes "taxon_matches (lower q) t = Inr True" and "taxon_entry t = Inr e"
  shows "name_contains q e"
proof -
  from taxon_matches_True [OF assms(1)] obtain kvs where t: "t = JObj kvs"
    and hit: "(\<exists>com. dget kvs ''comName'' (JStr []) = JStr com \<and> sublist (lower q) (lower com)) \<or>
              (\<exists>sci. dget kvs ''sciName'' (JStr []) = JStr sci \<and> sublist (lower q) (lower sci))"
    by blast
  from assms(2) have e: "py_get e ''common_name'' JNull = Inr (dget kvs ''comName'' (JStr []))"
    "py_get e ''scientific_name'' JNull = Inr (dget kvs ''sciName'' (JStr []))"
    unfolding t by (rule taxon_entry_names)+
  from hit show ?thesis
    unfolding name_contains_def e by auto
qed

text \<open>
  Claim C7. With a non-empty query, a result of \<open>get_taxonomy\<close> that is not an error
  text is built from the upstream entries whose common or scientific name contains the
  query, letter case apart, in upstream order: the first 20 of them are kept, then the
  cap of 50 is applied, so at most 20 entries come back, and each of them has the query
  in one of its two names.
\<close>

theorem taxonomy_search_filters_and_caps:
  assumes "q \<noteq> []"
    and "get_taxonomy tools http species_codes (Some q) = Inr (Payload v)"
  shows "\<exists>taxonomy items matches out.
           http (taxonomy_request tools species_codes) = Inr taxonomy \<and>
           py_iter taxonomy = Inr items \<and>
           matches = filter (\<lambda>t. taxon_matches (lower q) t = Inr True) items \<and>
           map_exn taxon_entry (slice_to 50 (slice_to 20 matches)) = Inr out \<and>
           v = JArr out \<and>
           length out \<le> 20 \<and>
           (\<forall>e \<in> set out. name_contains q e)"
proof -
  from assms(2) have "taxonomy_body tools http species_codes (Some q) = Inr v"
    by (auto simp: get_taxonomy_def try_except_def split: sum.splits)
  then obtain taxonomy found capped its out where
    h: "http (taxonomy_request tools species_codes) = Inr taxonomy"
    and f: "taxonomy_search (Some q) taxonomy = Inr found"
    and c: "py_slice_to 50 found = Inr capped"
    and i: "py_iter capped = Inr its"
    and m: "map_exn taxon_entry its = Inr out" and v: "v = JArr out"
    by (auto simp: taxonomy_body_def bnd_eq_Inr)
  from f assms(1) obtain items ms where
    it: "py_iter taxonomy = Inr items"
    and fe: "filter_exn (taxon_matches (lower q)) items = Inr ms"
    and found: "found = JArr (slice_to 20 ms)"
    by (auto simp: taxonomy_search_def bnd_eq_Inr)
  have ms: "ms = filter (\<lambda>t. taxon_matches (lower q) t = Inr True) items"
    using filter_exn_Inr [OF fe] .
  from c i have its: "its = slice_to 50 (slice_to 20 ms)"
    unfolding found by auto
  from m have all2: "list_all2 (\<lambda>t e. taxon_entry t = Inr e) its out"
    by (simp add: map_exn_Inr_iff)
  then have "length out = length its"
    by (simp add: list_all2_lengthD)
  then have len: "length out \<le> 20"
    unfolding its by (simp add: slice_to_def)
  have sub: "set its \<subseteq> set ms"
    unfolding its slice_to_def by (auto dest: in_set_takeD)
  have "\<forall>e \<in> set out. name_contains q e"
  proof
    fix e assume "e \<in> set out"
    with all2 obtain t where t: "t \<in> set its" "taxon_entry t = Inr e"
      using list_all2_nthD2 [of "\<lambda>t e. taxon_entry t = Inr e" its out]
      by (auto simp: in_set_conv_nth list_all2_lengthD)
    with sub have "t \<in> set ms" by blast
    then have "taxon_matches (lower q) t = Inr True"
      unfolding ms by simp
    then show "name_contains q e"
      using t(2) by (rule matched_entry_contains)
  qed
  then show ?thesis
    using h it ms m v len unfolding its by blast
qed

text \<open>
  The query \<open>cardinal\<close> over three entries: the two cardinals come back, one of them
  spelled in capitals upstream, and the jay does not.
\<close>

theorem taxonomy_search_filters_and_caps_witness:
  "get_taxonomy \<lparr>base_url = ''https://api.ebird.org/v2'', api_key = ''k''\<rparr>
     (\<lambda>r. Inr (JArr [
        JObj [(''comName'', JStr ''Northern Cardinal''), (''sciName'', JStr ''Cardinalis cardinalis'')],
        JObj [(''comName'', JStr ''Blue Jay''), (''sciName'', JStr ''Cyanocitta cristata'')],
        JObj [(''comName'', JStr ''Red-crested CARDINAL''), (''sciName'', JStr ''Paroaria coronata'')]]))
     None (Some ''cardinal'')
   = Inr (Payload (JArr [
        JObj [(''common_name'', JStr ''Northern Cardinal''),
              (''scientific_name'', JStr ''Cardinalis cardinalis''),
              (''species_code'', JStr []), (''category'', JStr []), (''order'', JStr []),
              (''family'', JStr []), (''family_scientific'', JStr [])],
        JObj [(''common_name'', JStr ''Red-crested CARDINAL''),
              (''scientific_name'', JStr ''Paroaria coronata''),
              (''species_code'', JStr []), (''category'', JStr []), (''order'', JStr []),
              (''family'', JStr []), (''family_scientific'', JStr [])]])) \<and>
   name_contains ''cardinal''
     (JObj [(''common_name'', JStr ''Red-crested CARDINAL''),
            (''scientific_name'', JStr ''Paroaria coronata''),
            (''species_code'', JStr []), (''category'', JStr []), (''order'', JStr []),
            (''family'', JStr []), (''family_scientific'', JStr [])])"
  (is "?call = Inr (Payload (JArr [?e1, ?e2])) \<and> _")
proof -
  have q: "''cardinal'' \<noteq> []" by simp
  have run: "?call = Inr (Payload (JArr [?e1, ?e2]))"
    by code_simp
  from taxonomy_search_filters_and_caps [OF q run] obtain out
    where o: "JArr [?e1, ?e2] = JArr out"
      and a: "\<forall>e \<in> set out. name_contains ''cardinal'' e"
    by blast
  from o have "?e2 \<in> set out" by auto
  with a have "name_contains ''cardinal'' ?e2" by blast
  with run show ?thesis by blast
qed

subsection \<open>Errors of the data clients\<close>

lemma try_except_absorbed: "prefix ''Error '' msg \<Longrightarrow> absorbed msg body (try_except msg body)"
  by (cases body) (simp_all add: absorbed_def try_except_def)

lemma try_except_returns: "try_except msg body \<noteq> Inl x"
  by (cases body) (simp_all add: try_except_def)

lemma try_except_outbound: "try_except msg (bnd (Inl e) f) = Inr (ErrorText msg e)"
  by (simp add: try_except_def bnd_Inl)

text \<open>
  Claim C6. Each of the eight operations of the observation data client and the two of
  the weather client returns a text whatever happens in its \<^verbatim>\<open>try\<close> block: no exception
  leaves it. When the outbound call or the processing of the response raises, the text
  is the operation's message, which starts with \<^verbatim>\<open>Error\<close>, followed by the text of the
  exception. The exceptions are the subclasses of Python's \<^verbatim>\<open>Exception\<close>.
\<close>

theorem tools_absorb_every_exception:
  "absorbed ''Error fetching observations: ''
     (recent_observations_body tools http region_code back_days max_results)
     (get_recent_observations tools http region_code back_days max_results) \<and>
   (\<forall>x. get_recent_observations tools http region_code back_days max_results \<noteq> Inl x) \<and>
   (\<forall>e. http (recent_observations_request tools region_code back_days max_results) = Inl e \<longrightarrow>
      get_recent_observations tools http region_code back_days max_results = Inr (ErrorText ''Error fetching observations: '' e)) \<and>
   absorbed ''Error fetching notable observations: ''
     (notable_observations_body tools http region_code back_days max_results)
     (get_notable_observations tools http region_code back_days max_results) \<and>
   (\<forall>x. get_notable_observations tools http region_code back_days max_results \<noteq> Inl x) \<and>
   (\<forall>e. http (notable_observations_request tools region_code back_days max_results) = Inl e \<longrightarrow>
      get_notable_observations tools http region_code back_days max_results = Inr (ErrorText ''Error fetching notable observations: '' e)) \<and>
   absorbed ''Error fetching hotspots: ''
     (nearby_hotspots_body tools http lat lng distance_km max_results)
     (get_nearby_hotspots tools http lat lng distance_km max_results) \<and>
   (\<forall>x. get_nearby_hotspots tools http lat lng distance_km max_results \<noteq> Inl x) \<and>
   (\<forall>e. http (nearby_hotspots_request tools lat lng distance_km) = Inl e \<longrightarrow>
      get_nearby_hotspots tools http lat lng distance_km max_results = Inr (ErrorText ''Error fetching hotspots: '' e)) \<and>
   absorbed ''Error fetching species observations: ''
     (species_observations_body tools http species_code region_code back_days max_results)
     (get_species_observations tools http species_code region_code back_days max_results) \<and>
   (\<forall>x. get_species_observations tools http species_code region_code back_days max_results \<noteq> Inl x) \<and>
   (\<forall>e. http (species_observations_request tools species_code region_code back_days max_results) = Inl e \<longrightarrow>
      get_species_observations tools http species_code region_code back_days max_results = Inr (ErrorText ''Error fetching species observations: '' e)) \<and>
   absorbed ''Error fetching region info: ''
     (region_info_body tools http region_code)
     (get_region_info tools http region_code) \<and>
   (\<forall>x. get_region_info tools http region_code \<noteq> Inl x) \<and>
   (\<forall>e. http (region_info_request tools region_code) = Inl e \<longrightarrow>
      get_region_info tools http region_code = Inr (ErrorText ''Error fetching region info: '' e)) \<and>
   absorbed ''Error fetching hotspot info: ''
     (hotspot_info_body tools http hotspot_id)
     (get_hotspot_info tools http hotspot_id) \<and>
   (\<forall>x. get_hotspot_info tools http hotspot_id \<noteq> Inl x) \<and>
   (\<forall>e. http (hotspot_info_request tools hotspot_id) = Inl e \<longrightarrow>
      get_hotspot_info tools http hotspot_id = Inr (ErrorText ''Error fetching hotspot info: '' e)) \<and>
   absorbed ''Error fetching taxonomy: ''
     (taxonomy_body tools http species_codes search_query)
     (get_taxonomy tools http species_codes search_query) \<and>
   (\<forall>x. get_taxonomy tools http species_codes search_query \<noteq> Inl x) \<and>
   (\<forall>e. http (taxonomy_request tools species_codes) = Inl e \<longrightarrow>
      get_taxonomy tools http species_codes search_query = Inr (ErrorText ''Error fetching taxonomy: '' e)) \<and>
   absorbed ''Error fetching rare birds: ''
     (rare_birds_body rt tools http lat lng distance_km back_days)
     (get_rare_birds_nearby rt tools http lat lng distance_km back_days) \<and>
   (\<forall>x. get_rare_birds_nearby rt tools http lat lng distance_km back_days \<noteq> Inl x) \<and>
   (\<forall>e. http (rare_birds_request tools lat lng distance_km back_days) = Inl e \<longrightarrow>
      get_rare_birds_nearby rt tools http lat lng distance_km back_days = Inr (ErrorText ''Error fetching rare birds: '' e)) \<and>
   absorbed ''Error fetching weather: ''
     (weather_forecast_body http lat lng)
     (get_weather_forecast http lat lng) \<and>
   (\<forall>x. get_weather_forecast http lat lng \<noteq> Inl x) \<and>
   (\<forall>e. http (forecast_request lat lng) = Inl e \<longrightarrow>
      get_weather_forecast http lat lng = Inr (ErrorText ''Error fetching weather: '' e)) \<and>
   absorbed ''Error analyzing birding conditions: ''
     (birding_conditions_body rt http lat lng)
     (get_birding_conditions rt http lat lng) \<and>
   (\<forall>x. get_birding_conditions rt http lat lng \<noteq> Inl x) \<and>
   (\<forall>e. http (conditions_request lat lng) = Inl e \<longrightarrow>
      get_birding_conditions rt http lat lng = Inr (ErrorText ''Error analyzing birding conditions: '' e))"
proof -
  note ops = get_recent_observations_def get_notable_observations_def get_nearby_hotspots_def get_species_observations_def get_region_info_def get_hotspot_info_def get_taxonomy_def get_rare_birds_nearby_def get_weather_forecast_def get_birding_conditions_def
  note bodies = recent_observations_body_def notable_observations_body_def nearby_hotspots_body_def species_observations_body_def region_info_body_def hotspot_info_body_def taxonomy_body_def rare_birds_body_def weather_forecast_body_def birding_conditions_body_def
  show ?thesis
    apply (intro conjI allI impI)
    apply (simp_all only: ops try_except_returns not_False_eq_True)
    apply (simp_all add: try_except_absorbed)
    apply (simp_all only: bodies try_except_outbound)
    done
qed

text \<open>
  Every operation against an upstream whose transport fails, and \<open>get_region_info\<close> on
  a body that is not an object, where the processing raises.
\<close>

theorem tools_absorb_every_exception_witness:
  "get_recent_observations \<lparr>base_url = ''https://api.ebird.org/v2'', api_key = ''k''\<rparr> (\<lambda>r. Inl TransportError) ''US-CA'' 14 100
     = Inr (ErrorText ''Error fetching observations: '' TransportError) \<and>
   get_notable_observations \<lparr>base_url = ''https://api.ebird.org/v2'', api_key = ''k''\<rparr> (\<lambda>r. Inl TransportError) ''US-CA'' 14 100
     = Inr (ErrorText ''Error fetching notable observations: '' TransportError) \<and>
   get_nearby_hotspots \<lparr>base_url = ''https://api.ebird.org/v2'', api_key = ''k''\<rparr> (\<lambda>r. Inl TransportError) 42 (-71) 25 100
     = Inr (ErrorText ''Error fetching hotspots: '' TransportError) \<and>
   get_species_observations \<lparr>base_url = ''https://api.ebird.org/v2'', api_key = ''k''\<rparr> (\<lambda>r. Inl TransportError) ''norcar'' ''US-CA'' 14 100
     = Inr (ErrorText ''Error fetching species observations: '' TransportError) \<and>
   get_region_info \<lparr>base_url = ''https://api.ebird.org/v2'', api_key = ''k''\<rparr> (\<lambda>r. Inl TransportError) ''US-CA''
     = Inr (ErrorText ''Error fetching region info: '' TransportError) \<and>
   get_hotspot_info \<lparr>base_url = ''https://api.ebird.org/v2'', api_key = ''k''\<rparr> (\<lambda>r. Inl TransportError) ''L99381''
     = Inr (ErrorText ''Error fetching hotspot info: '' TransportError) \<and>
   get_taxonomy \<lparr>base_url = ''https://api.ebird.org/v2'', api_key = ''k''\<rparr> (\<lambda>r. Inl TransportError) None (Some ''cardinal'')
     = Inr (ErrorText ''Error fetching taxonomy: '' TransportError) \<and>
   get_rare_birds_nearby exact \<lparr>base_url = ''https://api.ebird.org/v2'', api_key = ''k''\<rparr> (\<lambda>r. Inl TransportError) 42 (-71) 25 14
     = Inr (ErrorText ''Error fetching rare birds: '' TransportError) \<and>
   get_weather_forecast (\<lambda>r. Inl TransportError) 42 (-71)
     = Inr (ErrorText ''Error fetching weather: '' TransportError) \<and>
   get_birding_conditions exact (\<lambda>r. Inl TransportError) 42 (-71)
     = Inr (ErrorText ''Error analyzing birding conditions: '' TransportError) \<and>
   get_region_info \<lparr>base_url = ''https://api.ebird.org/v2'', api_key = ''k''\<rparr> (\<lambda>r. Inr JNull) ''US-CA''
     = Inr (ErrorText ''Error fetching region info: '' AttributeError)"
proof -
  have processing:
    "region_info_body \<lparr>base_url = ''https://api.ebird.org/v2'', api_key = ''k''\<rparr>
       (\<lambda>r. Inr JNull) ''US-CA'' = Inl AttributeError"
    by (simp add: region_info_body_def bnd_Inr bnd_Inl)
  show ?thesis
    using tools_absorb_every_exception
      [where tools = "\<lparr>base_url = ''https://api.ebird.org/v2'', api_key = ''k''\<rparr>" and region_code = "''US-CA''" and back_days = 14
        and max_results = 100 and lat = 42 and lng = "-71" and distance_km = 25
        and species_code = "''norcar''" and hotspot_id = "''L99381''"
        and species_codes = None and search_query = "Some ''cardinal''"
        and http = "\<lambda>r. Inl TransportError" and rt = exact]
      tools_absorb_every_exception
      [where tools = "\<lparr>base_url = ''https://api.ebird.org/v2'', api_key = ''k''\<rparr>" and region_code = "''US-CA''" and back_days = 14
        and max_results = 100 and lat = 42 and lng = "-71" and distance_km = 25
        and species_code = "''norcar''" and hotspot_id = "''L99381''"
        and species_codes = None and search_query = "Some ''cardinal''"
        and http = "\<lambda>r. Inr JNull" and rt = exact]
    by (simp add: absorbed_def processing)
qed

subsection \<open>Structured-output extraction\<close>

lemma dropWhile_middle:
  assumes "m \<noteq> []" and "\<not> P (hd m)"
  shows "dropWhile P (a @ m @ b) = dropWhile P a @ m @ b"
proof (induction a)
  case Nil
  from assms show ?case by (cases m) simp_all
next
  case (Cons x a)
  then show ?case by simp
qed

lemma strip_around:
  assumes "m \<noteq> []" and "\<not> is_space (hd m)" and "\<not> is_space (last m)"
  shows "strip (a @ m @ b) = dropWhile is_space a @ m @ rev (dropWhile is_space (rev b))"
proof -
  have front: "dropWhile is_space (a @ m @ b) = dropWhile is_space a @ m @ b"
    using assms(1,2) by (rule dropWhile_middle)
  have "rev m \<noteq> []" "\<not> is_space (hd (rev m))"
    using assms(1,3) by (simp_all add: hd_rev)
  then have rear: "dropWhile is_space (rev b @ rev m @ rev (dropWhile is_space a))
                     = dropWhile is_space (rev b) @ rev m @ rev (dropWhile is_space a)"
    by (rule dropWhile_middle)
  show ?thesis
    unfolding strip_def front using rear by simp
qed

lemma strip_spaces_around:
  assumes "m \<noteq> []" and "\<not> is_space (hd m)" and "\<not> is_space (last m)"
    and "\<forall>c \<in> set a. is_space c" and "\<forall>c \<in> set b. is_space c"
  shows "strip (a @ m @ b) = m"
proof -
  have e: "dropWhile is_space a = []" "dropWhile is_space (rev b) = []"
    using assms(4,5) by simp_all
  show ?thesis
    unfolding strip_around [OF assms(1-3), of a b] e by simp
qed

lemma strip_fixed:
  assumes "m \<noteq> []" and "\<not> is_space (hd m)" and "\<not> is_space (last m)"
  shows "strip m = m"
  using strip_spaces_around [OF assms, of "[]" "[]"] by simp

lemma brace_span_middle:
  assumes "j \<noteq> []" and "hd j = CHR ''{''" and "last j = CHR ''}''"
    and "CHR ''{'' \<notin> set a" and "CHR ''}'' \<notin> set b"
  shows "brace_span (a @ j @ b) = Some j"
proof -
  have ea: "dropWhile (\<lambda>c. c \<noteq> CHR ''{'') a = []"
    using assms(4) by auto
  have "dropWhile (\<lambda>c. c \<noteq> CHR ''{'') (a @ j @ b)
          = dropWhile (\<lambda>c. c \<noteq> CHR ''{'') a @ j @ b"
    using assms(1,2) by (intro dropWhile_middle) simp_all
  then have front: "dropWhile (\<lambda>c. c \<noteq> CHR ''{'') (a @ j @ b) = j @ b"
    unfolding ea by simp
  have eb: "dropWhile (\<lambda>c. c \<noteq> CHR ''}'') (rev b) = []"
    using assms(5) by auto
  have "dropWhile (\<lambda>c. c \<noteq> CHR ''}'') (rev b @ rev j @ [])
          = dropWhile (\<lambda>c. c \<noteq> CHR ''}'') (rev b) @ rev j @ []"
    using assms(1,3) by (intro dropWhile_middle) (simp_all add: hd_rev)
  then have rear: "dropWhile (\<lambda>c. c \<noteq> CHR ''}'') (rev b @ rev j) = rev j"
    unfolding eb by simp
  have "brace_span (a @ j @ b) = (if j = [] then None else Some j)"
    unfolding brace_span_def front Let_def by (simp add: rear)
  then show ?thesis
    using assms(1) by simp
qed

lemma split_fence_none: "CHR ''`'' \<notin> set a \<Longrightarrow> split_fence a = None"
  by (induction a) auto

lemma split_fence_first:
  "CHR ''`'' \<notin> set a \<Longrightarrow> split_fence (a @ ''```'' @ r) = Some (a, r)"
  by (induction a) auto

lemma not_space_chars:
  "\<not> is_space (CHR ''{'')" "\<not> is_space (CHR ''}'')" "\<not> is_space (CHR ''`'')"
  "\<not> is_space (CHR ''j'')"
  by (simp_all add: is_space_def)

lemma fenced_block_found:
  assumes "j \<noteq> []" and "hd j = CHR ''{''" and "last j = CHR ''}''"
    and "CHR ''`'' \<notin> set j" and "CHR ''`'' \<notin> set before"
    and "tag = [] \<or> tag = ''json''"
    and "\<forall>c \<in> set w1. is_space c" and "\<forall>c \<in> set w2. is_space c"
  shows "fenced_block (strip (before @ ''```'' @ tag @ w1 @ j @ w2 @ ''```'' @ after))
           = Some j"
proof -
  let ?b = "dropWhile is_space before"
  let ?a = "rev (dropWhile is_space (rev after))"
  let ?m = "''```'' @ tag @ w1 @ j @ w2 @ ''```''"
  have "strip (before @ ?m @ after) = ?b @ ?m @ ?a"
    by (rule strip_around) (simp_all add: not_space_chars)
  then have s: "strip (before @ ''```'' @ tag @ w1 @ j @ w2 @ ''```'' @ after)
                  = ?b @ ''```'' @ (tag @ w1 @ j @ w2 @ ''```'' @ ?a)"
    by simp
  have "CHR ''`'' \<notin> set ?b"
    using assms(5) by (auto dest: set_dropWhileD)
  then have f1: "split_fence (?b @ ''```'' @ (tag @ w1 @ j @ w2 @ ''```'' @ ?a))
                   = Some (?b, tag @ w1 @ j @ w2 @ ''```'' @ ?a)"
    by (rule split_fence_first)
  have hdj: "hd (w1 @ j) \<noteq> CHR ''j''"
  proof (cases w1)
    case Nil
    then show ?thesis using assms(2) by simp
  next
    case (Cons c cs)
    then have "is_space c" using assms(7) by simp
    then show ?thesis using Cons not_space_chars(4) by auto
  qed
  have "w1 @ j \<noteq> []" using assms(1) by simp
  then have nj: "\<not> prefix ''json'' (w1 @ j @ w2 @ ''```'' @ ?a)"
    using hdj by (cases "w1 @ j") (auto simp: append_eq_Cons_conv)
  have inner: "(if prefix ''json'' (tag @ w1 @ j @ w2 @ ''```'' @ ?a)
                then drop 4 (tag @ w1 @ j @ w2 @ ''```'' @ ?a)
                else tag @ w1 @ j @ w2 @ ''```'' @ ?a) = (w1 @ j @ w2) @ ''```'' @ ?a"
    using assms(6) nj by auto
  have "CHR ''`'' \<notin> set (w1 @ j @ w2)"
    using assms(4,7,8) not_space_chars(3) by auto
  then have f2: "split_fence ((w1 @ j @ w2) @ ''```'' @ ?a) = Some (w1 @ j @ w2, ?a)"
    by (rule split_fence_first)
  have st: "strip (w1 @ j @ w2) = j"
    using assms(1,2,3,7,8) by (intro strip_spaces_around) (simp_all add: not_space_chars)
  show ?thesis
    unfolding s fenced_block_def f1 by (simp only: option.case prod.case inner f2 st)
qed

lemma fenced_block_plain:
  assumes "j \<noteq> []" and "hd j = CHR ''{''" and "last j = CHR ''}''"
    and "CHR ''`'' \<notin> set j"
  shows "strip j = j" and "fenced_block (strip j) = None"
proof -
  show s: "strip j = j"
    using assms(1-3) by (intro strip_fixed) (simp_all add: not_space_chars)
  show "fenced_block (strip j) = None"
    unfolding s fenced_block_def using split_fence_none [OF assms(4)] by simp
qed

lemma brace_span_reply:
  assumes "j \<noteq> []" and "hd j = CHR ''{''" and "last j = CHR ''}''"
    and "CHR ''{'' \<notin> set pre" and "CHR ''}'' \<notin> set post"
  shows "brace_span (strip (pre @ j @ post)) = Some j"
proof -
  have s: "strip (pre @ j @ post)
             = dropWhile is_space pre @ j @ rev (dropWhile is_space (rev post))"
    using assms(1-3) by (intro strip_around) (simp_all add: not_space_chars)
  have a: "CHR ''{'' \<notin> set (dropWhile is_space pre)"
    using assms(4) by (auto dest: set_dropWhileD)
  have b: "CHR ''}'' \<notin> set (rev (dropWhile is_space (rev post)))"
    using assms(5) by (auto dest: set_dropWhileD)
  show ?thesis
    unfolding s using assms(1-3) a b by (rule brace_span_middle)
qed

lemma area_text_fenced:
  assumes "j \<noteq> []" and "hd j = CHR ''{''" and "last j = CHR ''}''"
    and "CHR ''`'' \<notin> set j" and "CHR ''`'' \<notin> set before"
    and "tag = [] \<or> tag = ''json''"
    and "\<forall>c \<in> set w1. is_space c" and "\<forall>c \<in> set w2. is_space c"
  shows "area_text (strip (before @ ''```'' @ tag @ w1 @ j @ w2 @ ''```'' @ after)) = j"
  unfolding area_text_def fenced_block_found [OF assms] by simp

lemma area_text_plain:
  assumes "j \<noteq> []" and "hd j = CHR ''{''" and "last j = CHR ''}''"
    and "CHR ''`'' \<notin> set j"
  shows "area_text (strip j) = j"
  using fenced_block_plain [OF assms] by (simp add: area_text_def)

lemma except_decode_error_other:
  "e \<noteq> JSONDecodeError \<Longrightarrow> except_decode_error (Inl e) fallback = Inl e"
  by (cases e) simp_all

lemma tours_try_text:
  "tours_try loads repr (Inr (JStr s)) location =
     (case brace_span (strip s) of
        None \<Rightarrow> Inr (tours_fallback location)
      | Some matched \<Rightarrow>
          except_decode_error (bnd (loads matched) (tours_from_data repr location))
            (tours_fallback location))"
  by (simp add: tours_try_def bnd_Inr)

lemma tours_from_list:
  "py_get data ''tours'' (JArr []) = Inr (JArr items) \<Longrightarrow>
     tours_from_data repr location data =
       Inr (JObj [(''tours'', JArr (List.map_filter (clean_tour repr) (slice_to 10 items))),
                  (''location'', JStr location),
                  (''agent'', JStr ''Birding Tours Agent'')])"
  by (simp add: tours_from_data_def bnd_Inr)

lemma find_birding_tours_span:
  assumes "brace_span (strip r) = Some j"
  shows "find_birding_tours loads repr (\<lambda>p. Inr (JStr r)) location
           = ((case except_decode_error (bnd (loads j) (tours_from_data repr location))
                     (tours_fallback location) of
                 Inr body \<Rightarrow> Response body
               | Inl e \<Rightarrow> HTTPException 500 ''Agent error: '' (Some e)),
              [ToursPrompt location])"
  by (simp add: find_birding_tours_def tours_try_text assms)

lemma area_try_text:
  "area_try loads (Inr (JStr s)) req current_date =
     except_decode_error
       (bnd (loads (area_text (strip s))) (area_from_data req current_date))
       (area_fallback req current_date (JStr s))"
  by (simp add: area_try_def bnd_Inr)

lemma area_from_list:
  "py_get data ''birds'' (JArr []) = Inr (JArr birds) \<Longrightarrow>
     area_from_data req current_date data =
       Inr (JObj [(''birds'', JArr (slice_to (req_num_targets req) birds)),
                  (''species_analyzed'', JNum (real (length (req_species req)))),
                  (''date'', JStr current_date),
                  (''agent'', JStr ''Life List Coach'')])"
  by (simp add: area_from_data_def bnd_Inr)

lemma area_targets_text:
  assumes "req_species req \<noteq> []" and "area_text (strip r) = j"
  shows "get_area_based_targets loads (\<lambda>p. Inr (JStr r)) current_date req
           = ((case except_decode_error (bnd (loads j) (area_from_data req current_date))
                     (area_fallback req current_date (JStr r)) of
                 Inr body \<Rightarrow> Response body
               | Inl e \<Rightarrow> HTTPException 500 ''Agent error: '' (Some e)),
              [area_prompt req current_date])"
  using assms by (simp add: get_area_based_targets_def area_try_text)

text \<open>
  Claim C3 says that both endpoints extract the same object from a plain, a fenced and a
  prose-wrapped reply. The area-based targets do not: a reply that is the JSON object
  alone gives its birds, and the same object after a sentence of prose, with no fence,
  gives the fallback, no birds and the raw text, because the whole reply goes to
  \<^verbatim>\<open>json.loads\<close>. The reader rejects that reply at its first letter, whatever its bound.
\<close>

theorem prose_reply_counterexample:
  \<open>fst (get_area_based_targets json_loads
          (\<lambda>p. Inr (JStr ''{"birds": ["Wood Duck"]}'')) ''November 04, 2026''
          \<lparr>req_species = [''Mallard''], req_lat = None, req_longitude = None,
           req_num_targets = 3\<rparr>)
     = Response (JObj [(''birds'', JArr [JStr ''Wood Duck'']),
                       (''species_analyzed'', JNum 1),
                       (''date'', JStr ''November 04, 2026''),
                       (''agent'', JStr ''Life List Coach'')]) \<and>
   fst (get_area_based_targets json_loads
          (\<lambda>p. Inr (JStr ''Here are your targets: {"birds": ["Wood Duck"]}''))
          ''November 04, 2026''
          \<lparr>req_species = [''Mallard''], req_lat = None, req_longitude = None,
           req_num_targets = 3\<rparr>)
     = Response (JObj [(''birds'', JArr []),
                       (''recommendations'',
                          JStr ''Here are your targets: {"birds": ["Wood Duck"]}''),
                       (''species_analyzed'', JNum 1),
                       (''date'', JStr ''November 04, 2026''),
                       (''agent'', JStr ''Life List Coach'')]) \<and>
   area_text (strip ''Here are your targets: {"birds": ["Wood Duck"]}'')
     = ''Here are your targets: {"birds": ["Wood Duck"]}'' \<and>
   (\<forall>n. read_value n ''Here are your targets: {"birds": ["Wood Duck"]}'' = None)\<close>
  (is \<open>?plain \<and> ?prose \<and> ?whole \<and> ?rejected\<close>)
proof -
  have number: \<open>read_number ''Here are your targets: {"birds": ["Wood Duck"]}'' = None\<close>
    by code_simp
  have rejected: ?rejected
  proof
    fix n
    show \<open>read_value n ''Here are your targets: {"birds": ["Wood Duck"]}'' = None\<close>
      by (cases n) (simp_all add: number)
  qed
  have plain: ?plain
    by code_simp
  have prose: ?prose
    by code_simp
  have whole: ?whole
    by code_simp
  from plain prose whole rejected show ?thesis
    by (intro conjI)
qed

text \<open>
  Claim C3, as the code has it. Let \<open>j\<close> be the text of a JSON object, from its \<open>{\<close> to
  its \<open>}\<close>, without a backquote. For the tours search let the reply \<open>t\<close> be \<open>j\<close> alone, or
  \<open>j\<close> with no \<open>{\<close> before it and no \<open>}\<close> after it, which covers prose and fences around
  \<open>j\<close>. For the area-based targets let the reply \<open>r\<close> be \<open>j\<close> alone, or hold \<open>j\<close> between
  the first pair of fences, with or without the word \<^verbatim>\<open>json\<close> and with or without prose
  around the fences. Then each endpoint hands exactly \<open>j\<close> to \<^verbatim>\<open>json.loads\<close> and answers
  from what that call gives. When it gives the value \<open>data\<close>, the tours are the cleaned
  entries among the first ten of \<^verbatim>\<open>data["tours"]\<close>, and the birds are the first
  \<open>num_targets\<close> of \<^verbatim>\<open>data["birds"]\<close>. When it raises \<^verbatim>\<open>JSONDecodeError\<close>, the tours
  search answers with an empty list of tours and the area-based targets with no birds
  and the raw reply. When it raises any other exception, a \<^verbatim>\<open>RecursionError\<close> on a deep
  nesting for one, the endpoint raises the HTTP error 500. The last two conjuncts are
  about any reply \<open>s\<close>: the fallback is the answer whenever \<^verbatim>\<open>json.loads\<close> raises
  \<^verbatim>\<open>JSONDecodeError\<close> on the text it is handed, or the tours search finds no braces.
\<close>

theorem structured_output_extraction:
  assumes "j \<noteq> []" and "hd j = CHR ''{''" and "last j = CHR ''}''"
    and "CHR ''`'' \<notin> set j"
    and "CHR ''{'' \<notin> set pre" and "CHR ''}'' \<notin> set post"
    and "CHR ''`'' \<notin> set before" and "tag = [] \<or> tag = ''json''"
    and "\<forall>c \<in> set w1. is_space c" and "\<forall>c \<in> set w2. is_space c"
    and "t = j \<or> t = pre @ j @ post"
    and "r = j \<or> r = before @ ''```'' @ tag @ w1 @ j @ w2 @ ''```'' @ after"
    and "req_species req \<noteq> []"
  shows "brace_span (strip t) = Some j \<and>
         find_birding_tours loads repr (\<lambda>p. Inr (JStr t)) location
           = ((case except_decode_error (bnd (loads j) (tours_from_data repr location))
                     (tours_fallback location) of
                 Inr body \<Rightarrow> Response body
               | Inl e \<Rightarrow> HTTPException 500 ''Agent error: '' (Some e)),
              [ToursPrompt location]) \<and>
         (\<forall>data items. loads j = Inr data \<longrightarrow>
            py_get data ''tours'' (JArr []) = Inr (JArr items) \<longrightarrow>
            find_birding_tours loads repr (\<lambda>p. Inr (JStr t)) location
              = (Response (JObj [
                   (''tours'', JArr (List.map_filter (clean_tour repr) (slice_to 10 items))),
                   (''location'', JStr location),
                   (''agent'', JStr ''Birding Tours Agent'')]),
                 [ToursPrompt location])) \<and>
         (loads j = Inl JSONDecodeError \<longrightarrow>
            find_birding_tours loads repr (\<lambda>p. Inr (JStr t)) location
              = (Response (tours_fallback location), [ToursPrompt location])) \<and>
         (\<forall>e. loads j = Inl e \<longrightarrow> e \<noteq> JSONDecodeError \<longrightarrow>
            find_birding_tours loads repr (\<lambda>p. Inr (JStr t)) location
              = (HTTPException 500 ''Agent error: '' (Some e), [ToursPrompt location])) \<and>
         area_text (strip r) = j \<and>
         get_area_based_targets loads (\<lambda>p. Inr (JStr r)) current_date req
           = ((case except_decode_error (bnd (loads j) (area_from_data req current_date))
                     (area_fallback req current_date (JStr r)) of
                 Inr body \<Rightarrow> Response body
               | Inl e \<Rightarrow> HTTPException 500 ''Agent error: '' (Some e)),
              [area_prompt req current_date]) \<and>
         (\<forall>data birds. loads j = Inr data \<longrightarrow>
            py_get data ''birds'' (JArr []) = Inr (JArr birds) \<longrightarrow>
            get_area_based_targets loads (\<lambda>p. Inr (JStr r)) current_date req
              = (Response (JObj [
                   (''birds'', JArr (slice_to (req_num_targets req) birds)),
                   (''species_analyzed'', JNum (real (length (req_species req)))),
                   (''date'', JStr current_date),
                   (''agent'', JStr ''Life List Coach'')]),
                 [area_prompt req current_date])) \<and>
         (loads j = Inl JSONDecodeError \<longrightarrow>
            get_area_based_targets loads (\<lambda>p. Inr (JStr r)) current_date req
              = (Response (area_fallback req current_date (JStr r)),
                 [area_prompt req current_date])) \<and>
         (\<forall>e. loads j = Inl e \<longrightarrow> e \<noteq> JSONDecodeError \<longrightarrow>
            get_area_based_targets loads (\<lambda>p. Inr (JStr r)) current_date req
              = (HTTPException 500 ''Agent error: '' (Some e),
                 [area_prompt req current_date])) \<and>
         ((\<forall>m. brace_span (strip s) = Some m \<longrightarrow> loads m = Inl JSONDecodeError) \<longrightarrow>
            find_birding_tours loads repr (\<lambda>p. Inr (JStr s)) location
              = (Response (tours_fallback location), [ToursPrompt location])) \<and>
         (loads (area_text (strip s)) = Inl JSONDecodeError \<longrightarrow>
            get_area_based_targets loads (\<lambda>p. Inr (JStr s)) current_date req
              = (Response (area_fallback req current_date (JStr s)),
                 [area_prompt req current_date]))"
proof -
  have plain: "brace_span (strip j) = Some j"
    using brace_span_reply [OF assms(1-3), of "[]" "[]"] by simp
  have wrapped: "brace_span (strip (pre @ j @ post)) = Some j"
    using assms(1-3,5,6) by (rule brace_span_reply)
  from assms(11) plain wrapped have matched: "brace_span (strip t) = Some j"
    by (elim disjE) simp_all
  note tours = find_birding_tours_span [OF matched, of loads repr location]
  have unfenced: "area_text (strip j) = j"
    using assms(1-4) by (rule area_text_plain)
  have fenced: "area_text (strip (before @ ''```'' @ tag @ w1 @ j @ w2 @ ''```'' @ after)) = j"
    using assms(1-4,7-10) by (rule area_text_fenced)
  from assms(12) unfenced fenced have extracted: "area_text (strip r) = j"
    by (elim disjE) simp_all
  note area = area_targets_text [OF assms(13) extracted, of loads current_date]
  have t1: "\<forall>data items. loads j = Inr data \<longrightarrow>
            py_get data ''tours'' (JArr []) = Inr (JArr items) \<longrightarrow>
            find_birding_tours loads repr (\<lambda>p. Inr (JStr t)) location
              = (Response (JObj [
                   (''tours'', JArr (List.map_filter (clean_tour repr) (slice_to 10 items))),
                   (''location'', JStr location),
                   (''agent'', JStr ''Birding Tours Agent'')]),
                 [ToursPrompt location])"
    unfolding tours by (simp add: bnd_Inr tours_from_list)
  have t2: "loads j = Inl JSONDecodeError \<longrightarrow>
            find_birding_tours loads repr (\<lambda>p. Inr (JStr t)) location
              = (Response (tours_fallback location), [ToursPrompt location])"
    unfolding tours by (simp add: bnd_Inl)
  have t3: "\<forall>e. loads j = Inl e \<longrightarrow> e \<noteq> JSONDecodeError \<longrightarrow>
            find_birding_tours loads repr (\<lambda>p. Inr (JStr t)) location
              = (HTTPException 500 ''Agent error: '' (Some e), [ToursPrompt location])"
    unfolding tours by (simp add: bnd_Inl except_decode_error_other)
  have a1: "\<forall>data birds. loads j = Inr data \<longrightarrow>
            py_get data ''birds'' (JArr []) = Inr (JArr birds) \<longrightarrow>
            get_area_based_targets loads (\<lambda>p. Inr (JStr r)) current_date req
              = (Response (JObj [
                   (''birds'', JArr (slice_to (req_num_targets req) birds)),
                   (''species_analyzed'', JNum (real (length (req_species req)))),
                   (''date'', JStr current_date),
                   (''agent'', JStr ''Life List Coach'')]),
                 [area_prompt req current_date])"
    unfolding area by (simp add: bnd_Inr area_from_list)
  have a2: "loads j = Inl JSONDecodeError \<longrightarrow>
            get_area_based_targets loads (\<lambda>p. Inr (JStr r)) current_date req
              = (Response (area_fallback req current_date (JStr r)),
                 [area_prompt req current_date])"
    unfolding area by (simp add: bnd_Inl)
  have a3: "\<forall>e. loads j = Inl e \<longrightarrow> e \<noteq> JSONDecodeError \<longrightarrow>
            get_area_based_targets loads (\<lambda>p. Inr (JStr r)) current_date req
              = (HTTPException 500 ''Agent error: '' (Some e),
                 [area_prompt req current_date])"
    unfolding area by (simp add: bnd_Inl except_decode_error_other)
  have b1: "(\<forall>m. brace_span (strip s) = Some m \<longrightarrow> loads m = Inl JSONDecodeError) \<longrightarrow>
            find_birding_tours loads repr (\<lambda>p. Inr (JStr s)) location
              = (Response (tours_fallback location), [ToursPrompt location])"
    by (cases "brace_span (strip s)")
       (simp_all add: find_birding_tours_def tours_try_text bnd_Inl)
  have b2: "loads (area_text (strip s)) = Inl JSONDecodeError \<longrightarrow>
            get_area_based_targets loads (\<lambda>p. Inr (JStr s)) current_date req
              = (Response (area_fallback req current_date (JStr s)),
                 [area_prompt req current_date])"
    using assms(13) by (simp add: get_area_based_targets_def area_try_text bnd_Inl)
  from matched tours t1 t2 t3 extracted area a1 a2 a3 b1 b2 show ?thesis
    by (intro conjI)
qed

text \<open>
  The theorem with the reader \<open>json_loads\<close>: an object with one tour and one bird, fenced
  inside prose, gives the cleaned tour and the bird; a reply whose braces hold no JSON
  gives the two fallbacks. With a reader that raises \<^verbatim>\<open>RecursionError\<close> both endpoints
  raise the HTTP error 500.
\<close>

theorem structured_output_extraction_witness:
  \<open>find_birding_tours json_loads (\<lambda>v. [])
     (\<lambda>p. Inr (JStr (''Found these: ```json ''
        @ ''{"tours": [{"title": "Dawn walk", "url": "https://x.org/walk"}], "birds": ["Wood Duck"]}''
        @ '' ``` Enjoy!''))) ''Boston''
     = (Response (JObj [
          (''tours'', JArr [JObj [(''title'', JStr ''Dawn walk''), (''location'', JStr []),
                                  (''url'', JStr ''https://x.org/walk''),
                                  (''description'', JNull)]]),
          (''location'', JStr ''Boston''),
          (''agent'', JStr ''Birding Tours Agent'')]),
        [ToursPrompt ''Boston'']) \<and>
   get_area_based_targets json_loads
     (\<lambda>p. Inr (JStr (''Sure! '' @ ''```'' @ ''json'' @ [CHR 0x0A]
        @ ''{"tours": [{"title": "Dawn walk", "url": "https://x.org/walk"}], "birds": ["Wood Duck"]}''
        @ [CHR 0x0A] @ ''```'' @ '' Enjoy!'')))
     ''November 04, 2026''
     \<lparr>req_species = [''Mallard''], req_lat = None, req_longitude = None, req_num_targets = 3\<rparr>
     = (Response (JObj [(''birds'', JArr [JStr ''Wood Duck'']),
                        (''species_analyzed'', JNum 1),
                        (''date'', JStr ''November 04, 2026''),
                        (''agent'', JStr ''Life List Coach'')]),
        [AreaPrompt [''Mallard''] None ''November 04, 2026'' None 3]) \<and>
   find_birding_tours json_loads (\<lambda>v. []) (\<lambda>p. Inr (JStr ''{"tours": [soon}'')) ''Boston''
     = (Response (JObj [(''tours'', JArr []), (''location'', JStr ''Boston''),
                        (''agent'', JStr ''Birding Tours Agent'')]),
        [ToursPrompt ''Boston'']) \<and>
   get_area_based_targets json_loads (\<lambda>p. Inr (JStr ''{"tours": [soon}''))
     ''November 04, 2026''
     \<lparr>req_species = [''Mallard''], req_lat = None, req_longitude = None, req_num_targets = 3\<rparr>
     = (Response (JObj [(''birds'', JArr []),
                        (''recommendations'', JStr ''{"tours": [soon}''),
                        (''species_analyzed'', JNum 1),
                        (''date'', JStr ''November 04, 2026''),
                        (''agent'', JStr ''Life List Coach'')]),
        [AreaPrompt [''Mallard''] None ''November 04, 2026'' None 3]) \<and>
   find_birding_tours (\<lambda>text. Inl RecursionError) (\<lambda>v. [])
     (\<lambda>p. Inr (JStr (''Found these: ```json ''
        @ ''{"tours": [{"title": "Dawn walk", "url": "https://x.org/walk"}], "birds": ["Wood Duck"]}''
        @ '' ``` Enjoy!''))) ''Boston''
     = (HTTPException 500 ''Agent error: '' (Some RecursionError), [ToursPrompt ''Boston'']) \<and>
   get_area_based_targets (\<lambda>text. Inl RecursionError)
     (\<lambda>p. Inr (JStr (''Sure! '' @ ''```'' @ ''json'' @ [CHR 0x0A]
        @ ''{"tours": [{"title": "Dawn walk", "url": "https://x.org/walk"}], "birds": ["Wood Duck"]}''
        @ [CHR 0x0A] @ ''```'' @ '' Enjoy!'')))
     ''November 04, 2026''
     \<lparr>req_species = [''Mallard''], req_lat = None, req_longitude = None, req_num_targets = 3\<rparr>
     = (HTTPException 500 ''Agent error: '' (Some RecursionError),
        [AreaPrompt [''Mallard''] None ''November 04, 2026'' None 3])\<close>
  (is \<open>?tours_wrapped \<and> ?area_fenced \<and> ?tours_bad \<and> ?area_bad \<and> ?tours_deep \<and> ?area_deep\<close>)
proof -
  let ?j = \<open>''{"tours": [{"title": "Dawn walk", "url": "https://x.org/walk"}], "birds": ["Wood Duck"]}''\<close>
  let ?bad = \<open>''{"tours": [soon}''\<close>
  let ?pre = "''Found these: ```json ''"
  let ?post = "'' ``` Enjoy!''"
  let ?t = "?pre @ ?j @ ?post"
  let ?r = "''Sure! '' @ ''```'' @ ''json'' @ [CHR 0x0A] @ ?j @ [CHR 0x0A] @ ''```'' @ '' Enjoy!''"
  let ?req = "\<lparr>req_species = [''Mallard''], req_lat = None, req_longitude = None,
               req_num_targets = 3\<rparr>"
  let ?items = "[JObj [(''title'', JStr ''Dawn walk''), (''url'', JStr ''https://x.org/walk'')]]"
  let ?data = "JObj [(''tours'', JArr ?items), (''birds'', JArr [JStr ''Wood Duck''])]"
  have h1: "?j \<noteq> []" and h2: "hd ?j = CHR ''{''" and h3: "last ?j = CHR ''}''"
    and h4: "CHR ''`'' \<notin> set ?j"
    and h5: "CHR ''{'' \<notin> set ?pre"
    and h6: "CHR ''}'' \<notin> set ?post"
    and h7: "CHR ''`'' \<notin> set ''Sure! ''"
    and h8: "''json'' = [] \<or> ''json'' = ''json''"
    by simp_all
  have h9: "\<forall>c \<in> set [CHR 0x0A]. is_space c"
    by (simp add: is_space_def)
  have h11: "?t = ?j \<or> ?t = ?pre @ ?j @ ?post"
    by (rule disjI2) (rule refl)
  have h12: "?r = ?j \<or> ?r = ''Sure! '' @ ''```'' @ ''json'' @ [CHR 0x0A] @ ?j @ [CHR 0x0A]
                             @ ''```'' @ '' Enjoy!''"
    by (rule disjI2) (rule refl)
  have h13: "req_species ?req \<noteq> []"
    by simp
  have read: "json_loads ?j = Inr ?data"
    by code_simp
  have tours_entry: "py_get ?data ''tours'' (JArr []) = Inr (JArr ?items)"
    by simp
  have birds_entry: "py_get ?data ''birds'' (JArr []) = Inr (JArr [JStr ''Wood Duck''])"
    by simp
  have cleaned: "List.map_filter (clean_tour (\<lambda>v. [])) (slice_to 10 ?items)
      = [JObj [(''title'', JStr ''Dawn walk''), (''location'', JStr []),
               (''url'', JStr ''https://x.org/walk''), (''description'', JNull)]]"
    by code_simp
  have sliced: "slice_to (req_num_targets ?req) [JStr ''Wood Duck''] = [JStr ''Wood Duck'']"
    by (simp add: slice_to_def)
  have p: "area_prompt ?req ''November 04, 2026''
             = AreaPrompt [''Mallard''] None ''November 04, 2026'' None 3"
    by (simp add: area_prompt_def slice_to_def)
  have "brace_span (strip ?bad) = Some ?bad" "json_loads ?bad = Inl JSONDecodeError"
    by code_simp+
  then have bad1: "\<forall>m. brace_span (strip ?bad) = Some m \<longrightarrow> json_loads m = Inl JSONDecodeError"
    by simp
  have bad2: "json_loads (area_text (strip ?bad)) = Inl JSONDecodeError"
    by code_simp
  have deep: "RecursionError \<noteq> JSONDecodeError"
    by simp
  note T = structured_output_extraction
      [where loads = json_loads and j = ?j and pre = ?pre and post = ?post
        and before = "''Sure! ''" and tag = "''json''"
        and ?w1.0 = "[CHR 0x0A]" and ?w2.0 = "[CHR 0x0A]" and after = "'' Enjoy!''"
        and t = ?t and r = ?r and s = ?bad and req = ?req and repr = "\<lambda>v. []"
        and location = "''Boston''" and current_date = "''November 04, 2026''",
       OF h1 h2 h3 h4 h5 h6 h7 h8 h9 h9 h11 h12 h13]
  note D = structured_output_extraction
      [where loads = "\<lambda>text. Inl RecursionError" and j = ?j and pre = ?pre and post = ?post
        and before = "''Sure! ''" and tag = "''json''"
        and ?w1.0 = "[CHR 0x0A]" and ?w2.0 = "[CHR 0x0A]" and after = "'' Enjoy!''"
        and t = ?t and r = ?r and s = ?bad and req = ?req and repr = "\<lambda>v. []"
        and location = "''Boston''" and current_date = "''November 04, 2026''",
       OF h1 h2 h3 h4 h5 h6 h7 h8 h9 h9 h11 h12 h13]
  note tours3 = T [THEN conjunct2, THEN conjunct2, THEN conjunct1, rule_format,
                   OF read tours_entry]
  note area8 = T [THEN conjunct2, THEN conjunct2, THEN conjunct2, THEN conjunct2,
                  THEN conjunct2, THEN conjunct2, THEN conjunct2, THEN conjunct1,
                  rule_format, OF read birds_entry]
  note tours11 = T [THEN conjunct2, THEN conjunct2, THEN conjunct2, THEN conjunct2,
                  THEN conjunct2, THEN conjunct2, THEN conjunct2, THEN conjunct2,
                  THEN conjunct2, THEN conjunct2, THEN conjunct1, THEN mp, OF bad1]
  note area12 = T [THEN conjunct2, THEN conjunct2, THEN conjunct2, THEN conjunct2,
                  THEN conjunct2, THEN conjunct2, THEN conjunct2, THEN conjunct2,
                  THEN conjunct2, THEN conjunct2, THEN conjunct2, rule_format, OF bad2]
  note tours5 = D [THEN conjunct2, THEN conjunct2, THEN conjunct2, THEN conjunct2,
                   THEN conjunct1, rule_format, OF refl deep]
  note area10 = D [THEN conjunct2, THEN conjunct2, THEN conjunct2, THEN conjunct2,
                  THEN conjunct2, THEN conjunct2, THEN conjunct2, THEN conjunct2,
                  THEN conjunct2, THEN conjunct1, rule_format, OF refl deep]
  from tours3 have a: ?tours_wrapped
    unfolding cleaned .
  from area8 have b: ?area_fenced
    unfolding sliced p by simp
  from tours11 have c: ?tours_bad
    unfolding tours_fallback_def .
  from area12 have d: ?area_bad
    unfolding p area_fallback_def by simp
  from tours5 have e: ?tours_deep .
  from area10 have f: ?area_deep
    unfolding p .
  from a b c d e f show ?thesis
    by (intro conjI)
qed

end
